theory Spec2Isabelle
  imports Main
begin

section \<open>The lobby registry of \<^verbatim>\<open>server/lib/wsapi/lobbies.js\<close>\<close>

text \<open>
  A shallow embedding of the \<^verbatim>\<open>LobbyApi\<close> class. The class keeps its tables in
  immutable maps that every handler reassigns; the model threads one record of these
  tables through each handler. A handler that throws keeps whatever it had assigned
  before the throw, so a handler returns a pair: the error or the value, and the
  tables as they are when it stops.
\<close>

subsection \<open>Data\<close>

text \<open>
  Slot, team and lobby are Immutable records declared in \<^verbatim>\<open>lobbies/slot\<close> and
  \<^verbatim>\<open>lobbies/lobby\<close>; the handlers read the fields below. Every slot has a name, a race
  and an id; a field that can hold \<^verbatim>\<open>null\<close> is an option.
\<close>

datatype slot_type =
  Open | Closed | Human | Computer | Observer | ControlledOpen | ControlledClosed | UmsComputer

record slot =
  s_type :: slot_type
  s_name :: string
  s_race :: string
  s_id :: string
  s_userId :: "nat option"
  s_controlledBy :: "string option"
  s_hasForcedRace :: bool
  s_playerId :: "nat option"

record team =
  slots :: "slot list"
  isObserver :: bool

record map_info =
  map_id :: string
  map_slots :: int

record lobby =
  l_name :: string
  l_map :: "map_info option"
  gameType :: string
  gameSubType :: "int option"
  host :: slot
  teams :: "team list"

record client =
  c_name :: string
  c_userId :: nat
  c_clientId :: string

record user =
  u_name :: string
  u_userId :: nat

type_synonym socket_id = string

text \<open>The errors of \<^verbatim>\<open>http-errors\<close> the handlers throw, with their messages, and the
  \<^verbatim>\<open>TypeError\<close> of reading a field of \<^verbatim>\<open>undefined\<close>.\<close>

datatype error =
    BadRequest string
  | Conflict string
  | NotFound string
  | Unauthorized string
  | Forbidden string
  | TypeError

text \<open>The paths of \<^verbatim>\<open>_getPath\<close>, \<^verbatim>\<open>_getUserPath\<close> and \<^verbatim>\<open>_getClientPath\<close>;
  \<^verbatim>\<open>MOUNT_BASE\<close> is the lobby list.\<close>

datatype path =
    MOUNT_BASE
  | LobbyPath string
  | UserPath string string
  | ClientPath string nat string

text \<open>The events of a \<^verbatim>\<open>diff\<close> message, in the shapes \<^verbatim>\<open>_publishLobbyDiff\<close> pushes.\<close>

datatype diff_event =
    HostChange slot
  | Kick slot
  | Ban slot
  | LeaveEv slot
  | SlotDeleted nat "nat option"
  | SlotCreate nat nat slot
  | SlotChange nat nat slot
  | RaceChange nat nat string

text \<open>Messages published on a path. A list message carries the lobby where the source
  carries \<^verbatim>\<open>Lobbies.toSummaryJson(lobby)\<close>, which is not interpreted; \<^verbatim>\<open>Chat\<close> carries
  time, sender and text.\<close>

datatype message =
    ListAdd lobby
  | ListUpdate lobby
  | ListDelete string
  | Status "lobby option"
  | Chat nat string string
  | Diff "diff_event list"
  | StartCountdown
  | CancelCountdown
  | SetupGame "string option"
  | SetRoutes string "string option"
  | CancelLoading
  | GameStarted
  | AllowStart "string option"
  | LeaveMsg "slot option"

text \<open>Calls into the collaborators, in the order the handlers make them.
  \<^verbatim>\<open>SubscribeClient\<close> carries the lobby table its \<^verbatim>\<open>full\<close> message summarises.
  \<^verbatim>\<open>ThrownToLoader\<close> is an error that leaves a callback of \<^verbatim>\<open>loadGame\<close> into the game
  loader that called it.\<close>

datatype effect =
    Publish path message
  | SubscribeClient socket_id path "string \<rightharpoonup> lobby option"
  | UnsubscribeClient socket_id path
  | OnceClose socket_id
  | RemoveCloseListener socket_id
  | ClientSubscribe client path
  | ClientUnsubscribe client path
  | UserSubscribe string path
  | UserUnsubscribe string path
  | RejectTimer string
  | ThrownToLoader error

record ListSubscription =
  count :: int

text \<open>
  The fields of \<^verbatim>\<open>LobbyApi\<close>, then the table of the activity registry
  (\<^verbatim>\<open>games/gameplay-activity-registry\<close>) and the log of calls made so far.
  \<^verbatim>\<open>lobbyCountdowns\<close> holds a \<^verbatim>\<open>Countdown\<close> record whose only field is the
  deferred; the model keeps the key only. \<^verbatim>\<open>loadingLobbies\<close> holds
  \<^verbatim>\<open>setup.gameId\<close>, which may be undefined. \<^verbatim>\<open>lobbies\<close> can hold a key with no lobby:
  \<^verbatim>\<open>_kickPlayerFromLobby\<close> stores what \<^verbatim>\<open>Lobbies.removePlayer\<close> returns as it is.
\<close>

record registry =
  lobbies :: "string \<rightharpoonup> lobby option"
  lobbyClients :: "client \<rightharpoonup> string"
  lobbyBannedUsers :: "string \<rightharpoonup> string list"
  lobbyCountdowns :: "string \<rightharpoonup> unit"
  loadingLobbies :: "string \<rightharpoonup> string option"
  subscribedSockets :: "socket_id \<rightharpoonup> ListSubscription"
  userClients :: "string \<rightharpoonup> client"
  effects :: "effect list"

text \<open>
  What the handlers are given from outside \<^verbatim>\<open>lobbies.js\<close>: the session layer
  (\<^verbatim>\<open>userSockets\<close>, \<^verbatim>\<open>clientSockets\<close>), the map store, the slot constructors of
  \<^verbatim>\<open>lobbies/slot\<close> and the transition functions of \<^verbatim>\<open>lobbies/lobby\<close> and
  \<^verbatim>\<open>common/lobbies\<close>. A transition function that throws returns the message of its
  \<^verbatim>\<open>Error\<close> on the left.
  \<^verbatim>\<open>findAvailableSlot\<close> returns \<^verbatim>\<open>None\<close> for its not-found sentinel.
\<close>

record env =
  getBySocket :: "socket_id \<Rightarrow> user option"
  getByName :: "string \<Rightarrow> user option"
  getCurrentClient :: "socket_id \<Rightarrow> client option"
  getMapInfo :: "string \<Rightarrow> nat option \<Rightarrow> map_info option"
  Lobbies_create ::
    "string \<Rightarrow> map_info \<Rightarrow> string \<Rightarrow> int option \<Rightarrow> int \<Rightarrow> string \<Rightarrow> nat \<Rightarrow> lobby"
  findAvailableSlot :: "lobby \<Rightarrow> (nat \<times> nat \<times> slot) option"
  getObserverTeam :: "lobby \<Rightarrow> team option"
  isUms :: "string \<Rightarrow> bool"
  hasOpposingSides :: "lobby \<Rightarrow> bool"
  createObserver :: "string \<Rightarrow> slot"
  createHuman :: "string \<Rightarrow> nat \<Rightarrow> slot"
  createHumanUms :: "string \<Rightarrow> nat \<Rightarrow> string \<Rightarrow> bool \<Rightarrow> nat option \<Rightarrow> slot"
  createComputer :: slot
  createOpen :: slot
  addPlayer :: "lobby \<Rightarrow> nat \<Rightarrow> nat \<Rightarrow> slot \<Rightarrow> lobby"
  movePlayerToSlot :: "lobby \<Rightarrow> nat option \<Rightarrow> nat option \<Rightarrow> nat \<Rightarrow> nat \<Rightarrow> string + lobby"
  Lobbies_setRace :: "lobby \<Rightarrow> nat \<Rightarrow> nat \<Rightarrow> string \<Rightarrow> lobby"
  Lobbies_openSlot :: "lobby \<Rightarrow> nat \<Rightarrow> nat \<Rightarrow> string + lobby"
  Lobbies_closeSlot :: "lobby option \<Rightarrow> nat \<Rightarrow> nat \<Rightarrow> string + lobby"
  Lobbies_makeObserver :: "lobby \<Rightarrow> nat \<Rightarrow> nat \<Rightarrow> string + lobby"
  Lobbies_removeObserver :: "lobby \<Rightarrow> nat \<Rightarrow> string + lobby"

subsection \<open>Handlers that stop at a throw\<close>

type_synonym 'a handler = "registry \<Rightarrow> (error + 'a) \<times> registry"

definition ret :: "'a \<Rightarrow> 'a handler" where
  "ret x s = (Inr x, s)"

definition throw :: "error \<Rightarrow> 'a handler" where
  "throw e s = (Inl e, s)"

definition andThen :: "'a handler \<Rightarrow> ('a \<Rightarrow> 'b handler) \<Rightarrow> 'b handler" where
  "andThen m f s = (case m s of (Inl e, s') \<Rightarrow> (Inl e, s') | (Inr x, s') \<Rightarrow> f x s')"

definition modify :: "(registry \<Rightarrow> registry) \<Rightarrow> unit handler" where
  "modify f s = (Inr (), f s)"

definition emit :: "effect \<Rightarrow> unit handler" where
  "emit e = modify (\<lambda>s. s\<lparr>effects := effects s @ [e]\<rparr>)"

definition defined :: "'a option \<Rightarrow> 'a handler" where
  "defined v = (case v of None \<Rightarrow> throw TypeError | Some x \<Rightarrow> ret x)"

definition unless :: "bool \<Rightarrow> error \<Rightarrow> unit handler" where
  "unless ok e = (if ok then ret () else throw e)"

definition rethrow :: "string + 'a \<Rightarrow> 'a handler" where
  \<comment> \<open>\<^verbatim>\<open>try { ... } catch (err) { throw new errors.BadRequest(err.message) }\<close>\<close>
  "rethrow r = (case r of Inl msg \<Rightarrow> throw (BadRequest msg) | Inr x \<Rightarrow> ret x)"

subsection \<open>Who is calling\<close>

definition getUser :: "env \<Rightarrow> socket_id \<Rightarrow> user handler" where
  "getUser env sock =
     (case getBySocket env sock of
        None \<Rightarrow> throw (Unauthorized ''authorization required'')
      | Some u \<Rightarrow> ret u)"

definition getUserByName :: "env \<Rightarrow> string \<Rightarrow> user handler" where
  "getUserByName env n =
     (case getByName env n of
        None \<Rightarrow> throw (BadRequest ''user not online'')
      | Some u \<Rightarrow> ret u)"

text \<open>
  Modelled from the spec: the activity registry is not among the sources. The spec
  gives \<^verbatim>\<open>registerActiveClient(userName, client) -> bool\<close>, which fails when the user
  is already active, and \<^verbatim>\<open>unregisterClientForUser(userName)\<close>; the table is
  \<^const>\<open>userClients\<close>.
\<close>

definition registerActiveClient :: "string \<Rightarrow> client \<Rightarrow> bool handler" where
  "registerActiveClient n c s =
     (if userClients s n \<noteq> None then (Inr False, s)
      else (Inr True, s\<lparr>userClients := (userClients s)(n \<mapsto> c)\<rparr>))"

definition unregisterClientForUser :: "string \<Rightarrow> unit handler" where
  "unregisterClientForUser n = modify (\<lambda>s. s\<lparr>userClients := (userClients s)(n := None)\<rparr>)"

definition getActiveClientForUser :: "string \<Rightarrow> client handler" where
  "getActiveClientForUser n s =
     (case userClients s n of
        None \<Rightarrow> throw (BadRequest ''no active client for user'') s
      | Some c \<Rightarrow> ret c s)"

definition getClient :: "env \<Rightarrow> socket_id \<Rightarrow> client handler" where
  "getClient env sock =
     (case getCurrentClient env sock of
        None \<Rightarrow> throw (Unauthorized ''authorization required'')
      | Some c \<Rightarrow> ret c)"

text \<open>\<^verbatim>\<open>this.lobbies.get\<close> gives \<^verbatim>\<open>undefined\<close> for a name that has no lobby, so the
  result is an option; the caller fails with \<^const>\<open>TypeError\<close> where it first reads it.\<close>

definition lobbiesGet :: "registry \<Rightarrow> string \<Rightarrow> lobby option" where
  "lobbiesGet s n = (case lobbies s n of Some (Some l) \<Rightarrow> Some l | _ \<Rightarrow> None)"

definition getLobbyForClient :: "client \<Rightarrow> lobby option handler" where
  "getLobbyForClient c s =
     (case lobbyClients s c of
        None \<Rightarrow> throw (BadRequest ''must be in a lobby'') s
      | Some n \<Rightarrow> ret (lobbiesGet s n) s)"

definition ensureIsLobbyHost :: "lobby \<Rightarrow> slot option \<Rightarrow> unit handler" where
  "ensureIsLobbyHost l player =
     (case player of
        None \<Rightarrow> throw TypeError
      | Some p \<Rightarrow> unless (s_id p = s_id (host l)) (Unauthorized ''must be a lobby host''))"


definition ensureLobbyNotTransient :: "lobby \<Rightarrow> unit handler" where
  "ensureLobbyNotTransient l s =
     (if lobbyCountdowns s (l_name l) \<noteq> None
      then throw (Conflict ''lobby is counting down'') s
      else if loadingLobbies s (l_name l) \<noteq> None
      then throw (Conflict ''lobby has already started'') s
      else ret () s)"

subsection \<open>Publishing\<close>

definition publishListChange :: "message \<Rightarrow> unit handler" where
  "publishListChange m = emit (Publish MOUNT_BASE m)"

definition publishTo :: "lobby \<Rightarrow> message \<Rightarrow> unit handler" where
  "publishTo l m = emit (Publish (LobbyPath (l_name l)) m)"

definition publishToUser :: "lobby \<Rightarrow> string \<Rightarrow> message \<Rightarrow> unit handler" where
  "publishToUser l username m = emit (Publish (UserPath (l_name l) username) m)"

definition publishToClient :: "lobby \<Rightarrow> string \<Rightarrow> message \<Rightarrow> unit handler" where
  "publishToClient l username m =
     andThen (getActiveClientForUser username) (\<lambda>c.
     emit (Publish (ClientPath (l_name l) (c_userId c) (c_clientId c)) m))"

subsection \<open>The lobby list subscription\<close>

definition subscribe :: "socket_id \<Rightarrow> unit handler" where
  "subscribe sock s =
     (case subscribedSockets s sock of
        Some sub \<Rightarrow>
          (Inr (), s\<lparr>subscribedSockets :=
                      (subscribedSockets s)(sock \<mapsto> sub\<lparr>count := count sub + 1\<rparr>)\<rparr>)
      | None \<Rightarrow>
          (Inr (), s\<lparr>effects := effects s @ [SubscribeClient sock MOUNT_BASE (lobbies s), OnceClose sock],
                      subscribedSockets := (subscribedSockets s)(sock \<mapsto> \<lparr>count = 1\<rparr>)\<rparr>))"

definition unsubscribe :: "socket_id \<Rightarrow> unit handler" where
  "unsubscribe sock s =
     (case subscribedSockets s sock of
        None \<Rightarrow> throw (Conflict ''not subscribed'') s
      | Some sub \<Rightarrow>
          if count sub = 1
          then (Inr (), s\<lparr>effects := effects s @ [UnsubscribeClient sock MOUNT_BASE, RemoveCloseListener sock],
                           subscribedSockets := (subscribedSockets s)(sock := None)\<rparr>)
          else (Inr (), s\<lparr>subscribedSockets :=
                           (subscribedSockets s)(sock \<mapsto> sub\<lparr>count := count sub - 1\<rparr>)\<rparr>))"


subsection \<open>Chat\<close>

text \<open>\<^verbatim>\<open>time\<close> is \<^verbatim>\<open>Date.now()\<close>, an input. A JavaScript string is a sequence of code
  units, and \<^verbatim>\<open>length\<close> and \<^verbatim>\<open>slice\<close> count them; the model's characters stand for code
  units.\<close>

definition sendChat :: "env \<Rightarrow> socket_id \<Rightarrow> nat \<Rightarrow> string \<Rightarrow> unit handler" where
  "sendChat env sock time text0 =
     andThen (getClient env sock) (\<lambda>c.
     andThen (getLobbyForClient c) (\<lambda>lobbyU.
       let text = (if length text0 > 500 then take 500 text0 else text0) in
       andThen (defined lobbyU) (\<lambda>l.
       publishTo l (Chat time (c_name c) text))))"

subsection \<open>Reading a lobby\<close>

text \<open>
  Modelled from the spec: \<^verbatim>\<open>common/lobbies\<close> is not among the sources. The spec has
  teams as ordered sequences of slots, slots addressed by \<^verbatim>\<open>(teamIndex, slotIndex)\<close>, and
  the human slots as the slots of type \<^verbatim>\<open>human\<close>; the finders return the first slot in
  team-then-slot order, or nothing.
\<close>

definition getLobbySlots :: "lobby \<Rightarrow> slot list" where
  "getLobbySlots l = concat (map slots (teams l))"

definition getLobbySlotsWithIndexes :: "lobby \<Rightarrow> (nat \<times> nat \<times> slot) list" where
  "getLobbySlotsWithIndexes l =
     concat (map (\<lambda>(teamIndex, t). map (\<lambda>(slotIndex, sl). (teamIndex, slotIndex, sl))
                                        (enumerate 0 (slots t)))
                 (enumerate 0 (teams l)))"

definition getHumanSlots :: "lobby \<Rightarrow> slot list" where
  "getHumanSlots l = filter (\<lambda>sl. s_type sl = Human) (getLobbySlots l)"

definition findSlotByName :: "lobby \<Rightarrow> string \<Rightarrow> (nat \<times> nat \<times> slot) option" where
  "findSlotByName l n = find (\<lambda>(_, _, sl). s_name sl = n) (getLobbySlotsWithIndexes l)"

definition findSlotById :: "lobby \<Rightarrow> string \<Rightarrow> (nat \<times> nat \<times> slot) option" where
  "findSlotById l i = find (\<lambda>(_, _, sl). s_id sl = i) (getLobbySlotsWithIndexes l)"

subsection \<open>The diff of two lobbies\<close>

text \<open>
  The body of \<^verbatim>\<open>_publishLobbyDiff\<close> up to the publish. An Immutable \<^verbatim>\<open>Set\<close> built from a
  list is that list without repetitions; the order in which a \<^verbatim>\<open>Set\<close> is walked is the
  library's, and the model walks it in the order of first occurrence. An Immutable
  \<^verbatim>\<open>Map\<close> built from pairs keeps the last pair of a key. Destructuring the
  \<^verbatim>\<open>undefined\<close> that \<^verbatim>\<open>get\<close> gives for a missing key, or reading \<^verbatim>\<open>slots\<close> of a team the
  new lobby does not have, throws; then there is no event list (\<^const>\<open>None\<close>).
\<close>

definition idSlots :: "lobby \<Rightarrow> (string \<rightharpoonup> nat \<times> nat \<times> slot)" where
  "idSlots l = map_of (rev (map (\<lambda>(teamIndex, slotIndex, sl). (s_id sl, (teamIndex, slotIndex, sl)))
                                (getLobbySlotsWithIndexes l)))"

definition leftEvent ::
  "(string \<rightharpoonup> nat \<times> nat \<times> slot) \<Rightarrow> string option \<Rightarrow> string option \<Rightarrow> string \<Rightarrow> diff_event option"
where
  "leftEvent oldIdSlots kickedUser bannedUser i =
     (case oldIdSlots i of
        None \<Rightarrow> None
      | Some (_, _, player) \<Rightarrow>
          Some (if kickedUser = Some (s_name player) then Kick player
                else if bannedUser = Some (s_name player) then Ban player
                else LeaveEv player))"

definition deletedEvent :: "lobby \<Rightarrow> lobby \<Rightarrow> nat option \<Rightarrow> nat \<Rightarrow> diff_event list option" where
  "deletedEvent oldLobby newLobby deletedSlotIndex teamIndex =
     (if teamIndex < length (teams newLobby)
      then Some (if length (slots (teams oldLobby ! teamIndex)) > length (slots (teams newLobby ! teamIndex))
                 then [SlotDeleted teamIndex deletedSlotIndex] else [])
      else None)"

definition createdEvent :: "(string \<rightharpoonup> nat \<times> nat \<times> slot) \<Rightarrow> string \<Rightarrow> diff_event option" where
  "createdEvent newIdSlots i =
     (case newIdSlots i of
        None \<Rightarrow> None
      | Some (teamIndex, slotIndex, sl) \<Rightarrow> Some (SlotCreate teamIndex slotIndex sl))"

definition sameEvent ::
  "(string \<rightharpoonup> nat \<times> nat \<times> slot) \<Rightarrow> (string \<rightharpoonup> nat \<times> nat \<times> slot) \<Rightarrow> string \<Rightarrow> diff_event list option"
where
  "sameEvent oldIdSlots newIdSlots i =
     (case (oldIdSlots i, newIdSlots i) of
        (Some (oldTeamIndex, oldSlotIndex, oldSlot), Some (newTeamIndex, newSlotIndex, newSlot)) \<Rightarrow>
          (let samePlace = (oldTeamIndex = newTeamIndex \<and> oldSlotIndex = newSlotIndex) in
           if samePlace \<and> oldSlot = newSlot then Some []
           else Some ((if \<not> samePlace \<and> s_id oldSlot = s_id newSlot
                       then [SlotChange newTeamIndex newSlotIndex newSlot] else [])
                    @ (if samePlace \<and> s_race oldSlot \<noteq> s_race newSlot
                       then [RaceChange newTeamIndex newSlotIndex (s_race newSlot)] else [])))
      | _ \<Rightarrow> None)"

definition diffEvents ::
  "lobby \<Rightarrow> lobby \<Rightarrow> string option \<Rightarrow> string option \<Rightarrow> nat option \<Rightarrow> diff_event list option"
where
  "diffEvents oldLobby newLobby kickedUser bannedUser deletedSlotIndex =
     (let hostEvents = (if s_id (host newLobby) \<noteq> s_id (host oldLobby)
                        then [HostChange (host newLobby)] else []);
          oldSlots = remdups (map s_id (getLobbySlots oldLobby));
          newSlots = remdups (map s_id (getLobbySlots newLobby));
          oldHumans = remdups (map s_id (getHumanSlots oldLobby));
          same = filter (\<lambda>i. i \<in> set newSlots) oldSlots;
          left = filter (\<lambda>i. i \<notin> set same) oldHumans;
          created = filter (\<lambda>i. i \<notin> set same) newSlots;
          oldIdSlots = idSlots oldLobby;
          newIdSlots = idSlots newLobby
      in case (those (map (leftEvent oldIdSlots kickedUser bannedUser) left),
               those (map (deletedEvent oldLobby newLobby deletedSlotIndex) [0 ..< length (teams oldLobby)]),
               those (map (createdEvent newIdSlots) created),
               those (map (sameEvent oldIdSlots newIdSlots) same)) of
           (Some departures, Some deletions, Some creations, Some changes) \<Rightarrow>
             Some (hostEvents @ departures @ concat deletions @ creations @ concat changes)
         | _ \<Rightarrow> None)"

text \<open>\<^verbatim>\<open>oldLobby === newLobby\<close> compares references; lobbies are immutable values, and the
  model compares the values.\<close>

definition publishLobbyDiff ::
  "lobby \<Rightarrow> lobby \<Rightarrow> string option \<Rightarrow> string option \<Rightarrow> nat option \<Rightarrow> unit handler"
where
  "publishLobbyDiff oldLobby newLobby kickedUser bannedUser deletedSlotIndex =
     (if oldLobby = newLobby then ret ()
      else case diffEvents oldLobby newLobby kickedUser bannedUser deletedSlotIndex of
             None \<Rightarrow> throw TypeError
           | Some evs \<Rightarrow>
               andThen (if evs \<noteq> [] then publishTo newLobby (Diff evs) else ret ()) (\<lambda>_.
               publishListChange (ListUpdate newLobby)))"

subsection \<open>Creating and joining\<close>

text \<open>A missing \<^verbatim>\<open>gameSubType\<close> takes the parameter's default, 0.\<close>

definition checkSubTypeValidity :: "string \<Rightarrow> int option \<Rightarrow> int \<Rightarrow> unit handler" where
  "checkSubTypeValidity gameType0 gameSubType0 numSlots =
     (let subType = (case gameSubType0 of None \<Rightarrow> 0 | Some v \<Rightarrow> v) in
      if gameType0 = ''topVBottom'' then
        (if subType < 1 \<or> subType > numSlots - 1
         then throw (BadRequest ''Invalid game sub-type'') else ret ())
      else if gameType0 = ''teamMelee'' \<or> gameType0 = ''teamFfa'' then
        (if subType < 2 \<or> subType > min 4 numSlots
         then throw (BadRequest ''Invalid game sub-type'') else ret ())
      else ret ())"

definition subscribeClientToLobby :: "lobby \<Rightarrow> user \<Rightarrow> client \<Rightarrow> unit handler" where
  "subscribeClientToLobby l u c =
     andThen (emit (ClientSubscribe c (LobbyPath (l_name l)))) (\<lambda>_.
     andThen (emit (UserSubscribe (u_name u) (UserPath (l_name l) (u_name u)))) (\<lambda>_.
     emit (ClientSubscribe c (ClientPath (l_name l) (c_userId c) (c_clientId c)))))"

definition lobbyNumSlots :: "string \<Rightarrow> map_info \<Rightarrow> int" where
  \<comment> \<open>the \<^verbatim>\<open>switch\<close> of \<^verbatim>\<open>create\<close> that sets \<^verbatim>\<open>numSlots\<close>, the slot count of the lobby\<close>
  "lobbyNumSlots gameType0 mapInfo =
     (if gameType0 = ''oneVOne'' then 2
      else if gameType0 = ''teamMelee'' \<or> gameType0 = ''teamFfa'' then 8
      else map_slots mapInfo)"

text \<open>\<^verbatim>\<open>await getMapInfo\<close> is where \<^verbatim>\<open>create\<close> and \<^verbatim>\<open>join\<close> are suspended; the model runs
  each handler in one piece. \<^verbatim>\<open>checkSubTypeValidity\<close> is given the slot count of the map,
  \<^verbatim>\<open>Lobbies.create\<close> the slot count of the lobby.\<close>

definition create :: "env \<Rightarrow> socket_id \<Rightarrow> string \<Rightarrow> string \<Rightarrow> string \<Rightarrow> int option \<Rightarrow> unit handler" where
  "create env sock name0 map0 gameType0 gameSubType0 =
     andThen (getUser env sock) (\<lambda>u.
     andThen (getClient env sock) (\<lambda>c.
     andThen (\<lambda>s. unless (lobbies s name0 = None) (Conflict ''already another lobby with that name'') s) (\<lambda>_.
     case getMapInfo env map0 (Some (u_userId u)) of
       None \<Rightarrow> throw (BadRequest ''invalid map'')
     | Some mapInfo \<Rightarrow>
         andThen (checkSubTypeValidity gameType0 gameSubType0 (map_slots mapInfo)) (\<lambda>_.
         let numSlots = lobbyNumSlots gameType0 mapInfo;
             l = Lobbies_create env name0 mapInfo gameType0 gameSubType0 numSlots (c_name c) (c_userId c)
         in
         andThen (registerActiveClient (u_name u) c) (\<lambda>ok.
         andThen (unless ok (Conflict ''user is already active in a gameplay activity'')) (\<lambda>_.
         andThen (modify (\<lambda>s. s\<lparr>lobbies := (lobbies s)(name0 \<mapsto> Some l)\<rparr>)) (\<lambda>_.
         andThen (modify (\<lambda>s. s\<lparr>lobbyClients := (lobbyClients s)(c \<mapsto> name0)\<rparr>)) (\<lambda>_.
         andThen (subscribeClientToLobby l u c) (\<lambda>_.
         publishListChange (ListAdd l))))))))))"


subsection \<open>Removing a player\<close>

text \<open>
  Modelled from the spec: \<^verbatim>\<open>Lobbies.removePlayer\<close> is not among the sources. The spec:
  it removes the slot at the coordinates, a fresh open slot with a new id taking its
  place; if no humans remain anywhere in the lobby it returns "lobby now empty"
  (\<^const>\<open>None\<close>); if the removed slot was the host, the host becomes the next human slot
  in team-then-slot order. The handlers pass it what \<^verbatim>\<open>findSlotByName\<close> or
  \<^verbatim>\<open>findSlotById\<close> found; where nothing was found there is nothing to replace.
  \<^verbatim>\<open>fresh\<close> is the slot \<^verbatim>\<open>Slots.createOpen()\<close> makes.
\<close>

definition removePlayer :: "slot \<Rightarrow> lobby \<Rightarrow> (nat \<times> nat \<times> slot) option \<Rightarrow> lobby option" where
  "removePlayer fresh l found =
     (let updated =
            (case found of
               None \<Rightarrow> l
             | Some (teamIndex, slotIndex, player) \<Rightarrow>
                 l\<lparr>teams := (teams l)[teamIndex :=
                      (teams l ! teamIndex)\<lparr>slots := (slots (teams l ! teamIndex))[slotIndex := fresh]\<rparr>]\<rparr>)
      in case getHumanSlots updated of
           [] \<Rightarrow> None
         | newHost # _ \<Rightarrow>
             (case found of
                None \<Rightarrow> Some updated
              | Some (_, _, player) \<Rightarrow>
                  if s_id (host l) = s_id player then Some (updated\<lparr>host := newHost\<rparr>)
                  else Some updated))"

datatype removal = REMOVAL_TYPE_NORMAL | REMOVAL_TYPE_KICK | REMOVAL_TYPE_BAN

text \<open>\<^verbatim>\<open>countdown.timer.reject\<close> is logged as \<^const>\<open>RejectTimer\<close>; what the rejection sets
  off is in the handshake below.\<close>

definition maybeCancelCountdown :: "lobby \<Rightarrow> unit handler" where
  "maybeCancelCountdown l s =
     (if lobbyCountdowns s (l_name l) = None then ret () s
      else
        (andThen (emit (RejectTimer (l_name l))) (\<lambda>_.
         andThen (modify (\<lambda>s. s\<lparr>lobbyCountdowns := (lobbyCountdowns s)(l_name l := None)\<rparr>)) (\<lambda>_.
         andThen (publishTo l CancelCountdown) (\<lambda>_.
         publishListChange (ListAdd l))))) s)"

definition removeClientFromLobby :: "env \<Rightarrow> lobby option \<Rightarrow> string \<Rightarrow> removal \<Rightarrow> unit handler" where
  "removeClientFromLobby env lobbyU userName removalType =
     andThen (getUserByName env userName) (\<lambda>u.
     andThen (getActiveClientForUser userName) (\<lambda>c.
     andThen (defined lobbyU) (\<lambda>l.
     let found = findSlotByName l userName in
     andThen
       (case removePlayer (createOpen env) l found of
          None \<Rightarrow>
            andThen (publishTo l (LeaveMsg (map_option (\<lambda>(_, _, player). player) found))) (\<lambda>_.
            andThen (modify (\<lambda>s. s\<lparr>lobbies := (lobbies s)(l_name l := None)\<rparr>)) (\<lambda>_.
            andThen (modify (\<lambda>s. s\<lparr>lobbyBannedUsers := (lobbyBannedUsers s)(l_name l := None)\<rparr>)) (\<lambda>_.
            publishListChange (ListDelete (l_name l)))))
        | Some updatedLobby \<Rightarrow>
            andThen (modify (\<lambda>s. s\<lparr>lobbies := (lobbies s)(l_name l \<mapsto> Some updatedLobby)\<rparr>)) (\<lambda>_.
            publishLobbyDiff l updatedLobby
              (if removalType = REMOVAL_TYPE_KICK then Some userName else None)
              (if removalType = REMOVAL_TYPE_BAN then Some userName else None)
              None)) (\<lambda>_.
     andThen (modify (\<lambda>s. s\<lparr>lobbyClients := (lobbyClients s)(c := None)\<rparr>)) (\<lambda>_.
     andThen (unregisterClientForUser userName) (\<lambda>_.
     andThen (publishToUser l userName (Status None)) (\<lambda>_.
     andThen (maybeCancelCountdown l) (\<lambda>_.
     andThen (\<lambda>s. (if loadingLobbies s (l_name l) \<noteq> None
                    then publishToUser l userName CancelLoading else ret ()) s) (\<lambda>_.
     andThen (emit (UserUnsubscribe (u_name u) (UserPath (l_name l) userName))) (\<lambda>_.
     andThen (emit (ClientUnsubscribe c (ClientPath (l_name l) (c_userId c) (c_clientId c)))) (\<lambda>_.
     emit (ClientUnsubscribe c (LobbyPath (l_name l))))))))))))))"


definition callerSlot :: "lobby \<Rightarrow> client \<Rightarrow> slot option" where
  \<comment> \<open>\<^verbatim>\<open>const [, , player] = findSlotByName(lobby, client.name)\<close>\<close>
  "callerSlot l c = map_option (\<lambda>(_, _, player). player) (findSlotByName l (c_name c))"



definition banPlayer :: "env \<Rightarrow> socket_id \<Rightarrow> string \<Rightarrow> unit handler" where
  "banPlayer env sock slotId =
     andThen (getClient env sock) (\<lambda>c.
     andThen (getLobbyForClient c) (\<lambda>lobbyU.
     andThen (defined lobbyU) (\<lambda>l.
     andThen (ensureIsLobbyHost l (callerSlot l c)) (\<lambda>_.
     andThen (ensureLobbyNotTransient l) (\<lambda>_.
     case findSlotById l slotId of
       None \<Rightarrow> throw (BadRequest ''invalid slot id'')
     | Some (_, _, playerToBan) \<Rightarrow>
         if s_type playerToBan \<noteq> Human
         then throw (BadRequest ''invalid slot type'')
         else
           andThen (modify (\<lambda>s. s\<lparr>lobbyBannedUsers :=
                      (lobbyBannedUsers s)(l_name l \<mapsto>
                         (case lobbyBannedUsers s (l_name l) of None \<Rightarrow> [] | Some val \<Rightarrow> val)
                         @ [s_name playerToBan])\<rparr>)) (\<lambda>_.
           removeClientFromLobby env (Some l) (s_name playerToBan) REMOVAL_TYPE_BAN))))))"

subsection \<open>Slot commands\<close>









subsection \<open>The countdown and load handshake\<close>

text \<open>
  \<^verbatim>\<open>startCountdown\<close> is an \<^verbatim>\<open>async\<close> function: it runs up to its \<^verbatim>\<open>await\<close> in the caller's
  turn, and the rest when \<^verbatim>\<open>Promise.all([countdownTimer, gameLoaded])\<close> settles. What one
  call keeps between turns is a record: the lobby it captured, the two promises, the
  two timeout handles, \<^verbatim>\<open>gameId\<close>, and how the promise it returned has settled
  (\<^const>\<open>None\<close> while it has not). A timeout handle is unset, armed with its delay, or
  has fired; \<^verbatim>\<open>clearTimeout\<close> and the assignment of \<^verbatim>\<open>null\<close> in \<^verbatim>\<open>finally\<close> unset it.
\<close>

datatype promise = Pending | Resolved | Rejected

datatype timeout = Unset | Armed nat | Fired

record handshake =
  hs_lobby :: lobby
  countdownTimer :: promise
  gameLoaded :: promise
  countdownTimerId :: timeout
  allowStartTimerId :: timeout
  gameId :: "string option"
  settled :: "(error + unit) option"

definition onGameSetup :: "lobby \<Rightarrow> string option \<Rightarrow> unit handler" where
  "onGameSetup l setupGameId =
     andThen (modify (\<lambda>s. s\<lparr>loadingLobbies := (loadingLobbies s)(l_name l \<mapsto> setupGameId)\<rparr>)) (\<lambda>_.
     foldr (\<lambda>player rest. andThen (publishToClient l player (SetupGame setupGameId)) (\<lambda>_. rest))
           (map s_name (getHumanSlots l)) (ret ()))"

definition onRoutesSet :: "lobby \<Rightarrow> string \<Rightarrow> string option \<Rightarrow> unit handler" where
  "onRoutesSet l playerName forGameId = publishToClient l playerName (SetRoutes playerName forGameId)"

definition onLoadingCanceled :: "lobby \<Rightarrow> unit handler" where
  "onLoadingCanceled l =
     andThen (modify (\<lambda>s. s\<lparr>loadingLobbies := (loadingLobbies s)(l_name l := None)\<rparr>)) (\<lambda>_.
     andThen (publishTo l CancelLoading) (\<lambda>_.
     publishListChange (ListAdd l)))"

text \<open>\<^verbatim>\<open>_onGameLoaded\<close> first maps every human slot to its active client, then walks the
  clients; a slot whose user has no active client gives \<^verbatim>\<open>undefined\<close>, and reading its
  name throws.\<close>

definition releaseClient :: "env \<Rightarrow> lobby \<Rightarrow> client option \<Rightarrow> unit handler" where
  "releaseClient env l clientU =
     andThen (defined clientU) (\<lambda>c.
     andThen (getUserByName env (c_name c)) (\<lambda>u.
     andThen (publishToUser l (u_name u) (Status None)) (\<lambda>_.
     andThen (emit (UserUnsubscribe (u_name u) (UserPath (l_name l) (u_name u)))) (\<lambda>_.
     andThen (emit (ClientUnsubscribe c (LobbyPath (l_name l)))) (\<lambda>_.
     andThen (emit (ClientUnsubscribe c (ClientPath (l_name l) (c_userId c) (c_clientId c)))) (\<lambda>_.
     andThen (modify (\<lambda>s. s\<lparr>lobbyClients := (lobbyClients s)(c := None)\<rparr>)) (\<lambda>_.
     unregisterClientForUser (u_name u))))))))"

definition onGameLoaded :: "env \<Rightarrow> lobby \<Rightarrow> unit handler" where
  "onGameLoaded env l =
     andThen (publishTo l GameStarted) (\<lambda>_.
     andThen (\<lambda>s. ret (map (\<lambda>p. userClients s (s_name p)) (getHumanSlots l)) s) (\<lambda>clients.
     andThen (foldr (\<lambda>clientU rest. andThen (releaseClient env l clientU) (\<lambda>_. rest)) clients (ret ())) (\<lambda>_.
     andThen (modify (\<lambda>s. s\<lparr>lobbies := (lobbies s)(l_name l := None)\<rparr>)) (\<lambda>_.
     modify (\<lambda>s. s\<lparr>loadingLobbies := (loadingLobbies s)(l_name l := None)\<rparr>)))))"

definition catchBlock :: "lobby \<Rightarrow> unit handler" where
  "catchBlock l = andThen (maybeCancelCountdown l) (\<lambda>_. onLoadingCanceled l)"

definition finallyBlock :: "handshake \<Rightarrow> handshake" where
  "finallyBlock h = h\<lparr>countdownTimerId := Unset, allowStartTimerId := Unset\<rparr>"

text \<open>The rest of the \<^verbatim>\<open>try\<close> statement once the \<^verbatim>\<open>await\<close> is over: \<^verbatim>\<open>_onGameLoaded\<close> when
  the wait resolved, the \<^verbatim>\<open>catch\<close> block when it rejected or \<^verbatim>\<open>_onGameLoaded\<close> threw, then
  \<^verbatim>\<open>finally\<close>. What the \<^verbatim>\<open>catch\<close> block returns or throws settles the call.\<close>

definition afterAwait :: "env \<Rightarrow> bool \<Rightarrow> handshake \<Rightarrow> registry \<Rightarrow> handshake \<times> registry" where
  "afterAwait env resolved h s =
     (let l = hs_lobby h;
          (r, s') = (if resolved
                     then (case onGameLoaded env l s of
                             (Inl err, s1) \<Rightarrow> catchBlock l s1
                           | (Inr u, s1) \<Rightarrow> (Inr u, s1))
                     else catchBlock l s)
      in ((finallyBlock h)\<lparr>settled := Some r\<rparr>, s'))"

text \<open>\<^verbatim>\<open>Promise.all\<close> rejects as soon as one promise rejects and resolves when both have
  resolved.\<close>

definition settle :: "env \<Rightarrow> handshake \<Rightarrow> registry \<Rightarrow> handshake \<times> registry" where
  "settle env h s =
     (if settled h \<noteq> None then (h, s)
      else if countdownTimer h = Rejected \<or> gameLoaded h = Rejected then afterAwait env False h s
      else if countdownTimer h = Resolved \<and> gameLoaded h = Resolved then afterAwait env True h s
      else (h, s))"

text \<open>The caller's turn of \<^verbatim>\<open>startCountdown\<close>. A throw before the \<^verbatim>\<open>try\<close> statement rejects
  the call; \<^verbatim>\<open>lobby.map.id\<close>, read inside it for \<^verbatim>\<open>loadGame\<close>, throws into the \<^verbatim>\<open>catch\<close>
  block when the lobby has no map.\<close>

definition startCountdown :: "env \<Rightarrow> socket_id \<Rightarrow> registry \<Rightarrow> (error + handshake) \<times> registry" where
  "startCountdown env sock =
     andThen (getClient env sock) (\<lambda>c.
     andThen (getLobbyForClient c) (\<lambda>lobbyU.
     andThen (defined lobbyU) (\<lambda>l.
     andThen (unless (hasOpposingSides env l) (BadRequest ''must have at least 2 opposing sides'')) (\<lambda>_.
     andThen (ensureIsLobbyHost l (callerSlot l c)) (\<lambda>_.
     andThen (ensureLobbyNotTransient l) (\<lambda>_.
     andThen (modify (\<lambda>s. s\<lparr>lobbyCountdowns := (lobbyCountdowns s)(l_name l \<mapsto> ())\<rparr>)) (\<lambda>_.
     andThen (publishTo l StartCountdown) (\<lambda>_.
     andThen (publishListChange (ListDelete (l_name l))) (\<lambda>_.
     (\<lambda>s. let h = \<lparr>hs_lobby = l, countdownTimer = Pending, gameLoaded = Pending,
                     countdownTimerId = Armed 5000, allowStartTimerId = Unset,
                     gameId = None, settled = None\<rparr>
           in case l_map l of
                None \<Rightarrow> (case afterAwait env False h s of (h', s') \<Rightarrow> (Inr h', s'))
              | Some m \<Rightarrow> (Inr h, s)))))))))))"

definition toLoader :: "(error + unit) \<times> registry \<Rightarrow> registry" where
  "toLoader r =
     (case r of
        (Inl err, s) \<Rightarrow> s\<lparr>effects := effects s @ [ThrownToLoader err]\<rparr>
      | (Inr u, s) \<Rightarrow> s)"

text \<open>
  What can happen to a call that is waiting: its countdown timeout fires, its
  allow-start timeout fires, the loader calls \<^verbatim>\<open>onGameSetup\<close> or \<^verbatim>\<open>onRoutesSet\<close>, the
  loader's promise resolves or rejects, or another handler of the registry runs. A
  timeout fires only while it is armed. Resolving \<^verbatim>\<open>countdownTimer\<close> runs its \<^verbatim>\<open>then\<close>
  callback, which arms the allow-start timeout and deletes the countdown record,
  before the wait is looked at. A handler that logs \<^const>\<open>RejectTimer\<close> for the lobby
  has rejected \<^verbatim>\<open>countdownTimer\<close>; the \<^verbatim>\<open>catch\<close> block runs once that handler is done.
  \<^verbatim>\<open>onGameSetup\<close> and \<^verbatim>\<open>onRoutesSet\<close> are run by the loader, outside the \<^verbatim>\<open>try\<close>
  statement of the call: they assign \<^verbatim>\<open>gameId\<close> first, and an error they throw goes to
  the loader (\<^const>\<open>toLoader\<close>), whose promise the call keeps waiting for.
\<close>

datatype event =
    CountdownTimeout
  | AllowStartTimeout
  | OnGameSetup "string option"
  | OnRoutesSet string "string option"
  | LoaderResolved
  | LoaderRejected
  | Call "unit handler"

fun step :: "env \<Rightarrow> event \<Rightarrow> handshake \<times> registry \<Rightarrow> handshake \<times> registry" where
  "step env CountdownTimeout (h, s) =
     (case countdownTimerId h of
        Armed delay \<Rightarrow>
          if countdownTimer h = Pending
          then settle env (h\<lparr>countdownTimerId := Fired, countdownTimer := Resolved,
                              allowStartTimerId := Armed 2000\<rparr>)
                          (s\<lparr>lobbyCountdowns := (lobbyCountdowns s)(l_name (hs_lobby h) := None)\<rparr>)
          else (h\<lparr>countdownTimerId := Fired\<rparr>, s)
      | _ \<Rightarrow> (h, s))"
| "step env AllowStartTimeout (h, s) =
     (case allowStartTimerId h of
        Armed delay \<Rightarrow> (h\<lparr>allowStartTimerId := Fired\<rparr>,
                        snd (publishTo (hs_lobby h) (AllowStart (gameId h)) s))
      | _ \<Rightarrow> (h, s))"
| "step env (OnGameSetup setupGameId) (h, s) =
     (h\<lparr>gameId := setupGameId\<rparr>, toLoader (onGameSetup (hs_lobby h) setupGameId s))"
| "step env (OnRoutesSet playerName forGameId) (h, s) =
     (h\<lparr>gameId := forGameId\<rparr>, toLoader (onRoutesSet (hs_lobby h) playerName forGameId s))"
| "step env LoaderResolved (h, s) =
     (if gameLoaded h = Pending then settle env (h\<lparr>gameLoaded := Resolved\<rparr>) s else (h, s))"
| "step env LoaderRejected (h, s) =
     (if gameLoaded h = Pending then settle env (h\<lparr>gameLoaded := Rejected\<rparr>) s else (h, s))"
| "step env (Call f) (h, s) =
     (let s' = snd (f s);
          rejected = (RejectTimer (l_name (hs_lobby h)) \<in> set (drop (length (effects s)) (effects s')))
      in settle env (if rejected \<and> countdownTimer h = Pending
                     then h\<lparr>countdownTimer := Rejected\<rparr> else h) s')"

definition run :: "env \<Rightarrow> event list \<Rightarrow> handshake \<times> registry \<Rightarrow> handshake \<times> registry" where
  "run env evs w = fold (step env) evs w"

text \<open>
  A call that has ended in its \<^verbatim>\<open>catch\<close> block, entered with the registry \<open>s0\<close>: the call
  has settled without an error, both timeouts are unset, the lobby has neither a
  countdown record nor a loading entry, and what has been published since \<open>s0\<close> is
  \<^verbatim>\<open>cancelCountdown\<close> and the list entry when \<open>s0\<close> had the countdown record, then
  \<^verbatim>\<open>cancelLoading\<close> and the list entry.
\<close>

definition rolledBack :: "registry \<Rightarrow> handshake \<times> registry \<Rightarrow> bool" where
  "rolledBack s0 w =
     (case w of (h, s) \<Rightarrow>
        let l = hs_lobby h in
        settled h = Some (Inr ()) \<and> countdownTimerId h = Unset \<and> allowStartTimerId h = Unset
        \<and> lobbyCountdowns s (l_name l) = None
        \<and> loadingLobbies s (l_name l) = None
        \<and> effects s = effects s0
             @ (if lobbyCountdowns s0 (l_name l) = None then []
                else [RejectTimer (l_name l), Publish (LobbyPath (l_name l)) CancelCountdown,
                      Publish MOUNT_BASE (ListAdd l)])
             @ [Publish (LobbyPath (l_name l)) CancelLoading, Publish MOUNT_BASE (ListAdd l)])"

subsection \<open>The commands of the API\<close>

text \<open>The routes that change a lobby, as \<^verbatim>\<open>registerApiRoutes\<close> mounts them, with the
  fields of the request body each reads.\<close>

datatype command =
    Join string
  | AddComputer string
  | ChangeSlot string
  | SetRace string string
  | OpenSlot string
  | CloseSlot string
  | KickPlayer string
  | BanPlayer string
  | MakeObserver string
  | RemoveObserver string
  | StartCountdownCmd
  | Leave


subsection \<open>A lobby of two, for the examples\<close>

definition slotAlice :: slot where
  "slotAlice = \<lparr>s_type = Human, s_name = ''alice'', s_race = ''r'', s_id = ''s1'', s_userId = Some 1,
                 s_controlledBy = None, s_hasForcedRace = False, s_playerId = None\<rparr>"

definition slotBob :: slot where
  "slotBob = \<lparr>s_type = Human, s_name = ''bob'', s_race = ''r'', s_id = ''s2'', s_userId = Some 2,
               s_controlledBy = None, s_hasForcedRace = False, s_playerId = None\<rparr>"

definition slotOpen :: slot where
  "slotOpen = \<lparr>s_type = Open, s_name = ''Open'', s_race = ''r'', s_id = ''s3'', s_userId = None,
                s_controlledBy = None, s_hasForcedRace = False, s_playerId = None\<rparr>"

definition map8 :: map_info where
  "map8 = \<lparr>map_id = ''m8'', map_slots = 8\<rparr>"

definition map3 :: map_info where
  "map3 = \<lparr>map_id = ''m3'', map_slots = 3\<rparr>"

definition lobbyA :: lobby where
  "lobbyA = \<lparr>l_name = ''A'', l_map = Some map8, gameType = ''melee'', gameSubType = None,
              host = slotAlice,
              teams = [\<lparr>slots = [slotAlice], isObserver = False\<rparr>,
                       \<lparr>slots = [slotBob], isObserver = False\<rparr>]\<rparr>"

definition lobbySolo :: lobby where
  "lobbySolo = lobbyA\<lparr>teams := [\<lparr>slots = [slotAlice], isObserver = False\<rparr>,
                                  \<lparr>slots = [slotOpen\<lparr>s_id := ''s4''\<rparr>], isObserver = False\<rparr>]\<rparr>"

definition clientAlice :: client where
  "clientAlice = \<lparr>c_name = ''alice'', c_userId = 1, c_clientId = ''c1''\<rparr>"

definition clientBob :: client where
  "clientBob = \<lparr>c_name = ''bob'', c_userId = 2, c_clientId = ''c2''\<rparr>"

definition userAlice :: user where
  "userAlice = \<lparr>u_name = ''alice'', u_userId = 1\<rparr>"

definition userBob :: user where
  "userBob = \<lparr>u_name = ''bob'', u_userId = 2\<rparr>"

text \<open>Alice is on socket \<^verbatim>\<open>a\<close>, Bob on socket \<^verbatim>\<open>b\<close>. The transition functions that stand
  in here are reached by no example.\<close>

definition exampleEnv :: env where
  "exampleEnv =
     \<lparr>getBySocket = (\<lambda>sock. if sock = ''a'' then Some userAlice
                             else if sock = ''b'' then Some userBob else None),
      getByName = (\<lambda>n. if n = ''alice'' then Some userAlice
                        else if n = ''bob'' then Some userBob else None),
      getCurrentClient = (\<lambda>sock. if sock = ''a'' then Some clientAlice
                                  else if sock = ''b'' then Some clientBob else None),
      getMapInfo = (\<lambda>m _. if m = ''m8'' then Some map8
                          else if m = ''m3'' then Some map3 else None),
      Lobbies_create = (\<lambda>n m gt st k hostName hostUserId.
         \<lparr>l_name = n, l_map = Some m, gameType = gt, gameSubType = st,
          host = slotAlice\<lparr>s_name := hostName, s_userId := Some hostUserId\<rparr>,
          teams = [\<lparr>slots = [slotAlice\<lparr>s_name := hostName, s_userId := Some hostUserId\<rparr>, slotOpen],
                    isObserver = False\<rparr>]\<rparr>),
      findAvailableSlot = (\<lambda>_. None),
      getObserverTeam = (\<lambda>_. None),
      isUms = (\<lambda>gt. gt = ''ums''),
      hasOpposingSides = (\<lambda>l. 2 \<le> length (teams l)),
      createObserver = (\<lambda>n. slotOpen\<lparr>s_type := Observer, s_name := n\<rparr>),
      createHuman = (\<lambda>n i. slotOpen\<lparr>s_type := Human, s_name := n, s_userId := Some i\<rparr>),
      createHumanUms = (\<lambda>n i r f p. slotOpen\<lparr>s_type := Human, s_name := n, s_userId := Some i\<rparr>),
      createComputer = slotOpen\<lparr>s_type := Computer, s_name := ''Computer''\<rparr>,
      createOpen = slotOpen,
      addPlayer = (\<lambda>l _ _ _. l),
      movePlayerToSlot = (\<lambda>_ _ _ _ _. Inl ''not moved''),
      Lobbies_setRace = (\<lambda>l _ _ _. l),
      Lobbies_openSlot = (\<lambda>_ _ _. Inl ''not opened''),
      Lobbies_closeSlot = (\<lambda>_ _ _. Inl ''not closed''),
      Lobbies_makeObserver = (\<lambda>_ _ _. Inl ''not made observer''),
      Lobbies_removeObserver = (\<lambda>_ _. Inl ''not removed'')\<rparr>"

definition emptyRegistry :: registry where
  "emptyRegistry = \<lparr>lobbies = Map.empty, lobbyClients = Map.empty, lobbyBannedUsers = Map.empty,
                     lobbyCountdowns = Map.empty, loadingLobbies = Map.empty,
                     subscribedSockets = Map.empty, userClients = Map.empty, effects = []\<rparr>"

definition registryA :: registry where
  "registryA = emptyRegistry
     \<lparr>lobbies := [''A'' \<mapsto> Some lobbyA],
      lobbyClients := [clientAlice \<mapsto> ''A'', clientBob \<mapsto> ''A''],
      userClients := [''alice'' \<mapsto> clientAlice, ''bob'' \<mapsto> clientBob]\<rparr>"

definition registryCounting :: registry where
  "registryCounting = registryA\<lparr>lobbyCountdowns := [''A'' \<mapsto> ()]\<rparr>"



definition lobbyNoMap :: lobby where
  \<comment> \<open>\<^const>\<open>lobbyA\<close> after a \<^verbatim>\<open>join\<close> whose \<^verbatim>\<open>getMapInfo\<close> found no map\<close>
  "lobbyNoMap = lobbyA\<lparr>l_map := None\<rparr>"

definition registryNoMap :: registry where
  "registryNoMap = registryA\<lparr>lobbies := [''A'' \<mapsto> Some lobbyNoMap]\<rparr>"

definition registrySolo :: registry where
  "registrySolo = emptyRegistry
     \<lparr>lobbies := [''A'' \<mapsto> Some lobbySolo],
      lobbyClients := [clientAlice \<mapsto> ''A''],
      lobbyBannedUsers := [''A'' \<mapsto> [''bob'']],
      userClients := [''alice'' \<mapsto> clientAlice]\<rparr>"

subsection \<open>Reading a diff\<close>

text \<open>The place of an event in the order host change, departures, deletions, creations,
  same-id changes; and the player of a departure event.\<close>

fun phase :: "diff_event \<Rightarrow> nat" where
  "phase (HostChange _) = 0"
| "phase (Kick _) = 1"
| "phase (Ban _) = 1"
| "phase (LeaveEv _) = 1"
| "phase (SlotDeleted _ _) = 2"
| "phase (SlotCreate _ _ _) = 3"
| "phase (SlotChange _ _ _) = 4"
| "phase (RaceChange _ _ _) = 4"

fun departed :: "diff_event \<Rightarrow> slot option" where
  "departed (Kick p) = Some p"
| "departed (Ban p) = Some p"
| "departed (LeaveEv p) = Some p"
| "departed _ = None"

definition lobbyAlone :: lobby where
  \<comment> \<open>\<^const>\<open>lobbyA\<close> once Bob's slot has been replaced by an open one\<close>
  "lobbyAlone = lobbyA\<lparr>teams := [\<lparr>slots = [slotAlice], isObserver = False\<rparr>,
                                   \<lparr>slots = [slotOpen], isObserver = False\<rparr>]\<rparr>"

definition lobbyBobHosts :: lobby where
  \<comment> \<open>\<^const>\<open>lobbyA\<close> once Alice has left: her slot is open and Bob is the host\<close>
  "lobbyBobHosts = lobbyA\<lparr>host := slotBob,
                           teams := [\<lparr>slots = [slotOpen], isObserver = False\<rparr>,
                                     \<lparr>slots = [slotBob], isObserver = False\<rparr>]\<rparr>"

subsection \<open>Transient lobbies\<close>

text \<open>A lobby is transient while it has an entry in the countdown table or in the loading
  table; \<^verbatim>\<open>ensureLobbyNotTransient\<close> then throws the first of its two errors that
  applies.\<close>

definition transient :: "registry \<Rightarrow> lobby \<Rightarrow> bool" where
  "transient s l = (lobbyCountdowns s (l_name l) \<noteq> None \<or> loadingLobbies s (l_name l) \<noteq> None)"


text \<open>What a handler checks before it calls \<^verbatim>\<open>ensureLobbyNotTransient\<close>: the caller's
  client is known and in the lobby, for the host's commands the caller's slot has the
  host's id, for \<^verbatim>\<open>closeSlot\<close> and \<^verbatim>\<open>kickPlayer\<close> the user is known too, for
  \<^verbatim>\<open>startCountdown\<close> the lobby has opposing sides, and for \<^verbatim>\<open>join\<close> the user and the
  client are known and the name is the lobby's. \<^verbatim>\<open>setRace\<close> and \<^verbatim>\<open>leave\<close> do not call it.\<close>

definition inLobby :: "env \<Rightarrow> socket_id \<Rightarrow> registry \<Rightarrow> lobby \<Rightarrow> bool" where
  "inLobby env sock s l =
     (case getCurrentClient env sock of
        None \<Rightarrow> False
      | Some c \<Rightarrow> (case lobbyClients s c of
                     None \<Rightarrow> False
                   | Some n \<Rightarrow> lobbies s n = Some (Some l)))"

definition callerIsHost :: "env \<Rightarrow> socket_id \<Rightarrow> lobby \<Rightarrow> bool" where
  "callerIsHost env sock l =
     (case getCurrentClient env sock of
        None \<Rightarrow> False
      | Some c \<Rightarrow> (case callerSlot l c of
                     None \<Rightarrow> False
                   | Some p \<Rightarrow> s_id p = s_id (host l)))"

fun reachesGuard :: "env \<Rightarrow> socket_id \<Rightarrow> registry \<Rightarrow> lobby \<Rightarrow> command \<Rightarrow> bool" where
  "reachesGuard env sock s l (Join name0) =
     (getBySocket env sock \<noteq> None \<and> getCurrentClient env sock \<noteq> None
      \<and> lobbies s name0 = Some (Some l))"
| "reachesGuard env sock s l (ChangeSlot _) = inLobby env sock s l"
| "reachesGuard env sock s l (SetRace _ _) = False"
| "reachesGuard env sock s l Leave = False"
| "reachesGuard env sock s l StartCountdownCmd =
     (inLobby env sock s l \<and> hasOpposingSides env l \<and> callerIsHost env sock l)"
| "reachesGuard env sock s l (CloseSlot _) =
     (getBySocket env sock \<noteq> None \<and> inLobby env sock s l \<and> callerIsHost env sock l)"
| "reachesGuard env sock s l (KickPlayer _) =
     (getBySocket env sock \<noteq> None \<and> inLobby env sock s l \<and> callerIsHost env sock l)"
| "reachesGuard env sock s l (AddComputer _) = (inLobby env sock s l \<and> callerIsHost env sock l)"
| "reachesGuard env sock s l (OpenSlot _) = (inLobby env sock s l \<and> callerIsHost env sock l)"
| "reachesGuard env sock s l (BanPlayer _) = (inLobby env sock s l \<and> callerIsHost env sock l)"
| "reachesGuard env sock s l (MakeObserver _) = (inLobby env sock s l \<and> callerIsHost env sock l)"
| "reachesGuard env sock s l (RemoveObserver _) = (inLobby env sock s l \<and> callerIsHost env sock l)"

definition registryLoading :: registry where
  "registryLoading = registryA\<lparr>loadingLobbies := [''A'' \<mapsto> Some ''g1'']\<rparr>"

subsection \<open>Lobbies without humans\<close>





definition envBobOffline :: env where
  \<comment> \<open>\<^const>\<open>exampleEnv\<close> once Bob's sockets are gone: \<^verbatim>\<open>userSockets.getByName\<close> no longer
      finds him\<close>
  "envBobOffline = exampleEnv\<lparr>getByName := (\<lambda>n. if n = ''alice'' then Some userAlice else None)\<rparr>"

subsection \<open>A handshake, for the examples\<close>

text \<open>What \<^verbatim>\<open>startCountdown\<close> from Alice leaves in \<^const>\<open>registryA\<close>, and the record of her
  call while it waits.\<close>

definition registryStarted :: registry where
  "registryStarted = registryA
     \<lparr>lobbyCountdowns := [''A'' \<mapsto> ()],
      effects := [Publish (LobbyPath ''A'') StartCountdown, Publish MOUNT_BASE (ListDelete ''A'')]\<rparr>"

definition handshakeA :: handshake where
  "handshakeA = \<lparr>hs_lobby = lobbyA, countdownTimer = Pending, gameLoaded = Pending,
                  countdownTimerId = Armed 5000, allowStartTimerId = Unset,
                  gameId = None, settled = None\<rparr>"

definition handshakeFired :: handshake where
  \<comment> \<open>\<^const>\<open>handshakeA\<close> once its countdown timeout has fired\<close>
  "handshakeFired = handshakeA\<lparr>countdownTimer := Resolved, countdownTimerId := Fired,
                                 allowStartTimerId := Armed 2000\<rparr>"

definition registryBobInactive :: registry where
  \<comment> \<open>\<^const>\<open>registryA\<close> once Bob has no active client\<close>
  "registryBobInactive = registryA\<lparr>userClients := [''alice'' \<mapsto> clientAlice]\<rparr>"

section \<open>Properties\<close>

lemmas handler_defs =
  ret_def throw_def andThen_def modify_def emit_def defined_def unless_def rethrow_def

lemmas example_defs =
  exampleEnv_def registryA_def emptyRegistry_def lobbyA_def slotAlice_def slotBob_def
  slotOpen_def map8_def clientAlice_def clientBob_def userAlice_def userBob_def
  registryCounting_def registrySolo_def lobbySolo_def lobbyAlone_def lobbyBobHosts_def
  registryLoading_def envBobOffline_def registryStarted_def handshakeA_def
  handshakeFired_def registryBobInactive_def map3_def

lemmas diff_defs =
  diffEvents_def getLobbySlots_def getHumanSlots_def getLobbySlotsWithIndexes_def idSlots_def
  leftEvent_def deletedEvent_def createdEvent_def sameEvent_def

lemmas find_defs =
  findSlotByName_def findSlotById_def callerSlot_def getLobbySlotsWithIndexes_def
  enumerate_eq_zip upt_rec

subsection \<open>Running a handler\<close>

lemma andThen_Inr: "m s = (Inr x, s') \<Longrightarrow> andThen m f s = f x s'"
  by (simp add: andThen_def)

lemma andThen_Inl: "m s = (Inl e, s') \<Longrightarrow> andThen m f s = (Inl e, s')"
  by (simp add: andThen_def)

lemma emit_run: "emit e s = (Inr (), s\<lparr>effects := effects s @ [e]\<rparr>)"
  by (simp add: emit_def modify_def)

lemma modify_run: "modify f s = (Inr (), f s)"
  by (simp add: modify_def)

lemma ret_run: "ret x s = (Inr x, s)"
  by (simp add: ret_def)

lemma throw_run: "throw e s = (Inl e, s)"
  by (simp add: throw_def)

lemma andThen_run:
  "andThen m f s = (case m s of (Inl e, s') \<Rightarrow> (Inl e, s') | (Inr x, s') \<Rightarrow> f x s')"
  by (simp add: andThen_def)

lemmas run_simps = andThen_run emit_run modify_run ret_run throw_run

subsection \<open>The sub-type check of \<^verbatim>\<open>create\<close>\<close>

lemma checkSubTypeValidity_BadRequest:
  "(\<exists>msg. fst (checkSubTypeValidity gt st n s) = Inl (BadRequest msg)) \<longleftrightarrow>
     (let v = (case st of None \<Rightarrow> 0 | Some v \<Rightarrow> v) in
      (gt = ''topVBottom'' \<and> \<not> (1 \<le> v \<and> v \<le> n - 1)) \<or>
      ((gt = ''teamMelee'' \<or> gt = ''teamFfa'') \<and> \<not> (2 \<le> v \<and> v \<le> min 4 n)))"
  by (auto simp: checkSubTypeValidity_def handler_defs Let_def split: option.splits)

lemma checkSubTypeValidity_cases:
  "checkSubTypeValidity gt st n s = (Inr (), s) \<or>
   checkSubTypeValidity gt st n s = (Inl (BadRequest ''Invalid game sub-type''), s)"
  by (auto simp: checkSubTypeValidity_def handler_defs Let_def split: option.splits)

lemma create_found_map:
  assumes "getBySocket env sock = Some u"
      and "getCurrentClient env sock = Some c"
      and "lobbies s name0 = None"
      and "getMapInfo env map0 (Some (u_userId u)) = Some mapInfo"
  shows "(\<exists>msg. fst (create env sock name0 map0 gt st s) = Inl (BadRequest msg)) \<longleftrightarrow>
     (let v = (case st of None \<Rightarrow> 0 | Some v \<Rightarrow> v); numSlots = map_slots mapInfo in
      (gt = ''topVBottom'' \<and> \<not> (1 \<le> v \<and> v \<le> numSlots - 1)) \<or>
      ((gt = ''teamMelee'' \<or> gt = ''teamFfa'') \<and> \<not> (2 \<le> v \<and> v \<le> min 4 numSlots)))"
proof -
  have "checkSubTypeValidity gt st (map_slots mapInfo) s = (Inr (), s) \<or>
        checkSubTypeValidity gt st (map_slots mapInfo) s
          = (Inl (BadRequest ''Invalid game sub-type''), s)"
    by (rule checkSubTypeValidity_cases)
  then show ?thesis
  proof
    assume ok: "checkSubTypeValidity gt st (map_slots mapInfo) s = (Inr (), s)"
    have no: "\<not> (\<exists>msg. fst (create env sock name0 map0 gt st s) = Inl (BadRequest msg))"
      using assms ok
      by (auto simp: create_def getUser_def getClient_def registerActiveClient_def
          subscribeClientToLobby_def publishListChange_def handler_defs Let_def)
    from ok have "\<not> (\<exists>msg. fst (checkSubTypeValidity gt st (map_slots mapInfo) s)
                              = Inl (BadRequest msg))"
      by simp
    with no show ?thesis
      unfolding checkSubTypeValidity_BadRequest by (simp add: Let_def)
  next
    assume bad: "checkSubTypeValidity gt st (map_slots mapInfo) s
                   = (Inl (BadRequest ''Invalid game sub-type''), s)"
    have yes: "fst (create env sock name0 map0 gt st s) = Inl (BadRequest ''Invalid game sub-type'')"
      using assms bad
      by (simp add: create_def getUser_def getClient_def handler_defs)
    from bad have "\<exists>msg. fst (checkSubTypeValidity gt st (map_slots mapInfo) s)
                            = Inl (BadRequest msg)"
      by simp
    with yes show ?thesis
      unfolding checkSubTypeValidity_BadRequest by (auto simp add: Let_def)
  qed
qed

lemma create_stops_early:
  "getBySocket env sock = None \<Longrightarrow>
     fst (create env sock name0 map0 gt st s) = Inl (Unauthorized ''authorization required'')"
  "getCurrentClient env sock = None \<Longrightarrow> getBySocket env sock = Some u \<Longrightarrow>
     fst (create env sock name0 map0 gt st s) = Inl (Unauthorized ''authorization required'')"
  "lobbies s name0 = Some x \<Longrightarrow> getBySocket env sock = Some u \<Longrightarrow> getCurrentClient env sock = Some c \<Longrightarrow>
     fst (create env sock name0 map0 gt st s) = Inl (Conflict ''already another lobby with that name'')"
  "getMapInfo env map0 (Some (u_userId u)) = None \<Longrightarrow> lobbies s name0 = None \<Longrightarrow>
     getBySocket env sock = Some u \<Longrightarrow> getCurrentClient env sock = Some c \<Longrightarrow>
     fst (create env sock name0 map0 gt st s) = Inl (BadRequest ''invalid map'')"
  by (simp_all add: create_def getUser_def getClient_def handler_defs)

text \<open>
  C8, as the code has it. \<^verbatim>\<open>create\<close> fails with \<^verbatim>\<open>BadRequest\<close> exactly when the caller is
  identified, the name is free, and either the map is not found or the sub-type is out
  of range for the game type: outside \<^verbatim>\<open>1..mapSlots-1\<close> for \<^verbatim>\<open>topVBottom\<close>, outside
  \<^verbatim>\<open>2..min(4, mapSlots)\<close> for \<^verbatim>\<open>teamMelee\<close> and \<^verbatim>\<open>teamFfa\<close>, where \<^verbatim>\<open>mapSlots\<close> is the slot
  count of the map and a missing sub-type counts as 0. The example is \<^verbatim>\<open>teamMelee\<close> on
  a map of 8 slots with sub-type 0.
\<close>

theorem create_BadRequest_iff_no_map_or_subtype_out_of_range:
  "(\<exists>msg. fst (create env sock name0 map0 gt st s) = Inl (BadRequest msg)) \<longleftrightarrow>
     (\<exists>u c. getBySocket env sock = Some u \<and> getCurrentClient env sock = Some c
        \<and> lobbies s name0 = None
        \<and> (case getMapInfo env map0 (Some (u_userId u)) of
             None \<Rightarrow> True
           | Some mapInfo \<Rightarrow>
               (let v = (case st of None \<Rightarrow> 0 | Some v \<Rightarrow> v); mapSlots = map_slots mapInfo in
                (gt = ''topVBottom'' \<and> \<not> (1 \<le> v \<and> v \<le> mapSlots - 1)) \<or>
                ((gt = ''teamMelee'' \<or> gt = ''teamFfa'') \<and> \<not> (2 \<le> v \<and> v \<le> min 4 mapSlots)))))"
proof (cases "getBySocket env sock")
  case None
  from create_stops_early(1) [OF None] show ?thesis using None by simp
next
  case (Some u)
  note u = this
  show ?thesis
  proof (cases "getCurrentClient env sock")
    case None
    from create_stops_early(2) [OF None u] show ?thesis using None by simp
  next
    case (Some c)
    note c = this
    show ?thesis
    proof (cases "lobbies s name0")
      case (Some x)
      from create_stops_early(3) [OF Some u c] show ?thesis using Some by simp
    next
      case None
      note free = this
      show ?thesis
      proof (cases "getMapInfo env map0 (Some (u_userId u))")
        case None
        from create_stops_early(4) [OF None free u c] show ?thesis using None free u c by simp
      next
        case (Some mapInfo)
        from create_found_map [OF u c free Some] show ?thesis
          using Some free u c by simp
      qed
    qed
  qed
qed

theorem create_teamMelee_subtype_0_witness:
  "map_slots map8 = 8 \<and>
   getMapInfo exampleEnv ''m8'' (Some (u_userId userAlice)) = Some map8 \<and>
   (\<exists>msg. fst (create exampleEnv ''a'' ''B'' ''m8'' ''teamMelee'' (Some 0) registryA)
            = Inl (BadRequest msg))"
  using create_BadRequest_iff_no_map_or_subtype_out_of_range
          [of exampleEnv "''a''" "''B''" "''m8''" "''teamMelee''" "Some 0" registryA]
  by (simp add: example_defs)

text \<open>Against C8 as stated: a \<^verbatim>\<open>teamMelee\<close> lobby has 8 slots whatever the map, and
  sub-type 4 is within \<^verbatim>\<open>2..min(4, 8)\<close>; on a map of 3 slots \<^verbatim>\<open>create\<close> fails with
  \<^verbatim>\<open>BadRequest\<close> all the same. When the map is not found \<^verbatim>\<open>create\<close> fails with
  \<^verbatim>\<open>BadRequest\<close> whatever the sub-type, and under a name that is taken it fails with
  \<^verbatim>\<open>Conflict\<close> though the sub-type is out of range.\<close>

theorem create_checks_the_slots_of_the_map_counterexample:
  "lobbyNumSlots ''teamMelee'' map3 = 8 \<and>
   (2::int) \<le> 4 \<and> 4 \<le> min 4 (lobbyNumSlots ''teamMelee'' map3) \<and>
   fst (create exampleEnv ''a'' ''B'' ''m3'' ''teamMelee'' (Some 4) registryA)
     = Inl (BadRequest ''Invalid game sub-type'') \<and>
   fst (create exampleEnv ''a'' ''B'' ''m0'' ''melee'' None registryA)
     = Inl (BadRequest ''invalid map'') \<and>
   fst (create exampleEnv ''a'' ''A'' ''m8'' ''teamMelee'' (Some 0) registryA)
     = Inl (Conflict ''already another lobby with that name'')"
  by (simp add: create_def lobbyNumSlots_def checkSubTypeValidity_def getUser_def getClient_def
      handler_defs example_defs)

subsection \<open>The reference count of a list subscription\<close>

text \<open>
  C9. \<^verbatim>\<open>unsubscribe\<close> on a connection that holds no subscription fails with \<^verbatim>\<open>Conflict\<close> and
  changes nothing. \<^verbatim>\<open>subscribe\<close> on a connection that holds one adds 1 to its count and
  makes no call. From no subscription, two \<^verbatim>\<open>subscribe\<close>s give count 2; one
  \<^verbatim>\<open>unsubscribe\<close> then leaves the subscription with count 1 and makes no call, and the
  second removes it, unsubscribing the connection.
\<close>

theorem subscription_ref_count:
  "(subscribedSockets s sock = None \<longrightarrow>
      unsubscribe sock s = (Inl (Conflict ''not subscribed''), s)) \<and>
   (subscribedSockets s sock = Some sub \<longrightarrow>
      subscribe sock s =
        (Inr (), s\<lparr>subscribedSockets :=
                     (subscribedSockets s)(sock \<mapsto> sub\<lparr>count := count sub + 1\<rparr>)\<rparr>)) \<and>
   (subscribedSockets s sock = None \<longrightarrow>
      (let s2 = snd (subscribe sock (snd (subscribe sock s)));
           s3 = snd (unsubscribe sock s2);
           s4 = snd (unsubscribe sock s3)
       in subscribedSockets s2 sock = Some \<lparr>count = 2\<rparr> \<and>
          fst (unsubscribe sock s2) = Inr () \<and>
          subscribedSockets s3 sock = Some \<lparr>count = 1\<rparr> \<and>
          effects s3 = effects s2 \<and>
          fst (unsubscribe sock s3) = Inr () \<and>
          subscribedSockets s4 sock = None \<and>
          effects s4 = effects s3 @ [UnsubscribeClient sock MOUNT_BASE, RemoveCloseListener sock]))"
  by (simp add: subscribe_def unsubscribe_def throw_def Let_def)

theorem subscription_ref_count_witness:
  "subscribedSockets emptyRegistry ''a'' = None \<and>
   unsubscribe ''a'' emptyRegistry = (Inl (Conflict ''not subscribed''), emptyRegistry) \<and>
   subscribedSockets (snd (subscribe ''a'' emptyRegistry)) ''a'' = Some \<lparr>count = 1\<rparr> \<and>
   subscribedSockets (snd (subscribe ''a'' (snd (subscribe ''a'' emptyRegistry)))) ''a''
     = Some \<lparr>count = 2\<rparr> \<and>
   effects (snd (subscribe ''a'' (snd (subscribe ''a'' emptyRegistry))))
     = effects (snd (subscribe ''a'' emptyRegistry)) \<and>
   subscribedSockets
     (snd (unsubscribe ''a'' (snd (subscribe ''a'' (snd (subscribe ''a'' emptyRegistry)))))) ''a''
     = Some \<lparr>count = 1\<rparr>"
  using subscription_ref_count [of emptyRegistry "''a''" "\<lparr>count = 1\<rparr>"]
        subscription_ref_count [of "snd (subscribe ''a'' emptyRegistry)" "''a''" "\<lparr>count = 1\<rparr>"]
  by (simp add: emptyRegistry_def subscribe_def Let_def)

subsection \<open>Chat\<close>

text \<open>
  C10. \<^verbatim>\<open>sendChat\<close> from a client in a lobby publishes one chat message to the lobby,
  with the sender's name and the text; a text longer than 500 is cut to its first 500
  characters, a shorter one is sent as it is, so the text sent is never longer than 500.
\<close>

theorem sendChat_truncates:
  assumes "getCurrentClient env sock = Some c"
      and "lobbyClients s c = Some n"
      and "lobbies s n = Some (Some l)"
  shows "sendChat env sock time text0 s =
           (Inr (), s\<lparr>effects := effects s @
              [Publish (LobbyPath (l_name l))
                 (Chat time (c_name c) (if length text0 > 500 then take 500 text0 else text0))]\<rparr>)
         \<and> length (if length text0 > 500 then take 500 text0 else text0) \<le> 500"
  using assms
  by (simp add: sendChat_def getClient_def getLobbyForClient_def lobbiesGet_def publishTo_def
      handler_defs Let_def)

theorem sendChat_truncates_witness:
  "getCurrentClient exampleEnv ''a'' = Some clientAlice \<and>
   lobbyClients registryA clientAlice = Some ''A'' \<and>
   lobbies registryA ''A'' = Some (Some lobbyA) \<and>
   sendChat exampleEnv ''a'' 7 (replicate 600 CHR ''x'') registryA =
     (Inr (), registryA\<lparr>effects :=
        [Publish (LobbyPath ''A'') (Chat 7 ''alice'' (replicate 500 CHR ''x''))]\<rparr>)"
  using sendChat_truncates
          [of exampleEnv "''a''" clientAlice registryA "''A''" lobbyA 7 "replicate 600 CHR ''x''"]
  by (simp add: example_defs)

subsection \<open>The slots of a lobby and their ids\<close>

lemma those_eq_Some: "those xs = Some ys \<longleftrightarrow> xs = map Some ys"
  by (induction xs arbitrary: ys) (auto split: option.splits)

lemma slots_of_indexed_team:
  "map ((\<lambda>(teamIndex, slotIndex, sl). sl) \<circ> Pair ti) (enumerate n xs) = xs"
  by (induction xs arbitrary: n) simp_all

lemma slots_of_indexed_teams:
  "map (\<lambda>(teamIndex, slotIndex, sl). sl)
     (concat (map (\<lambda>(teamIndex, t). map (\<lambda>(slotIndex, sl). (teamIndex, slotIndex, sl)) (enumerate 0 (slots t)))
                  (enumerate n ts)))
   = concat (map slots ts)"
  by (induction ts arbitrary: n) (simp_all add: slots_of_indexed_team)

lemma map_slot_getLobbySlotsWithIndexes:
  "map (\<lambda>(teamIndex, slotIndex, sl). sl) (getLobbySlotsWithIndexes l) = getLobbySlots l"
  unfolding getLobbySlotsWithIndexes_def getLobbySlots_def
  by (rule slots_of_indexed_teams)

lemma set_getLobbySlots:
  "set (getLobbySlots l) = (\<lambda>(teamIndex, slotIndex, sl). sl) ` set (getLobbySlotsWithIndexes l)"
  by (simp only: set_map [symmetric] map_slot_getLobbySlotsWithIndexes)

lemma indexed_slot_in_lobby:
  "(ti, si, sl) \<in> set (getLobbySlotsWithIndexes l) \<Longrightarrow> sl \<in> set (getLobbySlots l)"
  unfolding set_getLobbySlots by force

lemma idSlots_Some:
  assumes "idSlots l i = Some (ti, si, sl)"
  shows "s_id sl = i \<and> sl \<in> set (getLobbySlots l)"
proof -
  from assms have "(i, (ti, si, sl)) \<in> set (map (\<lambda>(teamIndex, slotIndex, sl). (s_id sl, (teamIndex, slotIndex, sl)))
                                (getLobbySlotsWithIndexes l))"
    unfolding idSlots_def by (auto dest: map_of_SomeD)
  then show ?thesis by (auto dest: indexed_slot_in_lobby)
qed


subsection \<open>The order of a diff\<close>

lemma map_eq_map_SomeD:
  "map f xs = map Some ys \<Longrightarrow> y \<in> set ys \<Longrightarrow> \<exists>x \<in> set xs. f x = Some y"
proof (induction xs arbitrary: ys)
  case Nil
  then show ?case by simp
next
  case (Cons x xs)
  then show ?case by (cases ys) auto
qed

lemma diffEvents_Some_parts:
  assumes "diffEvents old new k b d = Some evs"
  obtains departures deletions creations changes where
    "map (leftEvent (idSlots old) k b)
       (filter (\<lambda>i. i \<notin> set (filter (\<lambda>i. i \<in> set (remdups (map s_id (getLobbySlots new))))
                                       (remdups (map s_id (getLobbySlots old)))))
               (remdups (map s_id (getHumanSlots old))))
     = map Some departures"
    "map (deletedEvent old new d) [0 ..< length (teams old)] = map Some deletions"
    "map (createdEvent (idSlots new))
       (filter (\<lambda>i. i \<notin> set (filter (\<lambda>i. i \<in> set (remdups (map s_id (getLobbySlots new))))
                                       (remdups (map s_id (getLobbySlots old)))))
               (remdups (map s_id (getLobbySlots new))))
     = map Some creations"
    "map (sameEvent (idSlots old) (idSlots new))
       (filter (\<lambda>i. i \<in> set (remdups (map s_id (getLobbySlots new))))
               (remdups (map s_id (getLobbySlots old))))
     = map Some changes"
    "evs = (if s_id (host new) \<noteq> s_id (host old) then [HostChange (host new)] else [])
           @ departures @ concat deletions @ creations @ concat changes"
  using assms unfolding diffEvents_def Let_def
  by (auto split: option.splits simp: those_eq_Some)

lemma leftEvent_Some:
  assumes "leftEvent m k b i = Some e"
  obtains ti si p where "m i = Some (ti, si, p)"
    "e = (if k = Some (s_name p) then Kick p else if b = Some (s_name p) then Ban p else LeaveEv p)"
  using assms unfolding leftEvent_def by (auto split: option.splits)

lemma phase_leftEvent: "leftEvent m k b i = Some e \<Longrightarrow> phase e = 1"
  by (erule leftEvent_Some) auto

lemma phase_deletedEvent: "deletedEvent old new d ti = Some es \<Longrightarrow> e \<in> set es \<Longrightarrow> phase e = 2"
  unfolding deletedEvent_def by (auto split: if_splits)

lemma phase_createdEvent: "createdEvent m i = Some e \<Longrightarrow> phase e = 3"
  unfolding createdEvent_def by (auto split: option.splits)

lemma phase_sameEvent: "sameEvent m m' i = Some es \<Longrightarrow> e \<in> set es \<Longrightarrow> phase e = 4"
  unfolding sameEvent_def Let_def by (auto split: option.splits if_splits)

lemma sorted_const_phase: "\<forall>e \<in> set es. phase e = c \<Longrightarrow> sorted (map phase es)"
  by (induction es) auto


lemma human_ids_subset: "set (getHumanSlots l) \<subseteq> set (getLobbySlots l)"
  unfolding getHumanSlots_def by auto


lemma departed_players:
  assumes "map (leftEvent (idSlots old) k b) ids = map Some departures"
  shows "map s_id (List.map_filter departed departures) = ids
         \<and> (\<forall>e \<in> set departures. \<exists>p. departed e = Some p \<and> p \<in> set (getLobbySlots old)
               \<and> e = (if k = Some (s_name p) then Kick p
                      else if b = Some (s_name p) then Ban p else LeaveEv p))"
  using assms
proof (induction ids arbitrary: departures)
  case Nil
  then show ?case by (simp add: List.map_filter_simps)
next
  case (Cons i ids)
  then obtain e rest where d: "departures = e # rest"
    and e: "leftEvent (idSlots old) k b i = Some e"
    and rest: "map (leftEvent (idSlots old) k b) ids = map Some rest"
    by (cases departures) auto
  from e obtain ti si p where m: "idSlots old i = Some (ti, si, p)"
    and c: "e = (if k = Some (s_name p) then Kick p else if b = Some (s_name p) then Ban p else LeaveEv p)"
    by (rule leftEvent_Some)
  from m have p: "s_id p = i" "p \<in> set (getLobbySlots old)"
    using idSlots_Some by blast+
  from c have dp: "departed e = Some p" by simp
  show ?case
    using Cons.IH [OF rest] p dp c unfolding d
    by (simp add: List.map_filter_simps)
qed

lemma no_departed_deleted: "deletedEvent old new d ti = Some es \<Longrightarrow> e \<in> set es \<Longrightarrow> departed e = None"
  unfolding deletedEvent_def by (auto split: if_splits)

lemma no_departed_created: "createdEvent m i = Some e \<Longrightarrow> departed e = None"
  unfolding createdEvent_def by (auto split: option.splits)

lemma no_departed_same: "sameEvent m m' i = Some es \<Longrightarrow> e \<in> set es \<Longrightarrow> departed e = None"
  unfolding sameEvent_def Let_def by (auto split: option.splits if_splits)

lemma map_filter_all_None: "\<forall>x \<in> set xs. f x = None \<Longrightarrow> List.map_filter f xs = []"
  by (induction xs) (simp_all add: List.map_filter_simps)

lemma map_filter_append: "List.map_filter f (xs @ ys) = List.map_filter f xs @ List.map_filter f ys"
  by (simp add: List.map_filter_def)

text \<open>
  C3. Whenever the diff of two lobbies yields an event list, the list is in the order
  host change, departures (kick, ban, leave), slot deletions, slot creations, same-id
  changes (slot change, race change): the places of its events never decrease, and at
  most one event is a host change. (There is a list whenever the new lobby has at least
  as many teams as the old one, by \<open>diffEvents_total\<close>.)
\<close>

theorem diffEvents_in_phase_order:
  assumes "diffEvents old new k b d = Some evs"
  shows "sorted (map phase evs) \<and> length (filter (\<lambda>e. phase e = 0) evs) \<le> 1"
proof -
  from assms obtain departures deletions creations changes where
    l: "map (leftEvent (idSlots old) k b)
       (filter (\<lambda>i. i \<notin> set (filter (\<lambda>i. i \<in> set (remdups (map s_id (getLobbySlots new))))
                                       (remdups (map s_id (getLobbySlots old)))))
               (remdups (map s_id (getHumanSlots old))))
     = map Some departures"
    and dl: "map (deletedEvent old new d) [0 ..< length (teams old)] = map Some deletions"
    and c: "map (createdEvent (idSlots new))
       (filter (\<lambda>i. i \<notin> set (filter (\<lambda>i. i \<in> set (remdups (map s_id (getLobbySlots new))))
                                       (remdups (map s_id (getLobbySlots old)))))
               (remdups (map s_id (getLobbySlots new))))
     = map Some creations"
    and sm: "map (sameEvent (idSlots old) (idSlots new))
       (filter (\<lambda>i. i \<in> set (remdups (map s_id (getLobbySlots new))))
               (remdups (map s_id (getLobbySlots old))))
     = map Some changes"
    and evs: "evs = (if s_id (host new) \<noteq> s_id (host old) then [HostChange (host new)] else [])
           @ departures @ concat deletions @ creations @ concat changes"
    by (rule diffEvents_Some_parts)
  have p1: "\<forall>e \<in> set departures. phase e = 1"
    using map_eq_map_SomeD [OF l] phase_leftEvent by blast
  have p2: "\<forall>e \<in> set (concat deletions). phase e = 2"
    using map_eq_map_SomeD [OF dl] phase_deletedEvent by fastforce
  have p3: "\<forall>e \<in> set creations. phase e = 3"
    using map_eq_map_SomeD [OF c] phase_createdEvent by blast
  have p4: "\<forall>e \<in> set (concat changes). phase e = 4"
    using map_eq_map_SomeD [OF sm] phase_sameEvent by fastforce
  have s1: "sorted (map phase departures)" using p1 by (rule sorted_const_phase)
  have s2: "sorted (map phase (concat deletions))" using p2 by (rule sorted_const_phase)
  have s3: "sorted (map phase creations)" using p3 by (rule sorted_const_phase)
  have s4: "sorted (map phase (concat changes))" using p4 by (rule sorted_const_phase)
  have tail: "sorted (map phase (departures @ concat deletions @ creations @ concat changes))"
    using s1 s2 s3 s4 p1 p2 p3 p4
    by (auto simp add: sorted_append simp del: set_concat)
  have nohost: "filter (\<lambda>e. phase e = 0) (departures @ concat deletions @ creations @ concat changes) = []"
    using p1 p2 p3 p4 by (simp add: filter_empty_conv del: set_concat)
  show ?thesis
    using tail nohost unfolding evs by (simp del: set_concat append_assoc)
qed

theorem diffEvents_in_phase_order_witness:
  "diffEvents lobbyA lobbyBobHosts None None None
     = Some [HostChange slotBob, LeaveEv slotAlice, SlotCreate 0 0 slotOpen] \<and>
   map phase [HostChange slotBob, LeaveEv slotAlice, SlotCreate 0 0 slotOpen] = [0, 1, 3] \<and>
   sorted (map phase [HostChange slotBob, LeaveEv slotAlice, SlotCreate 0 0 slotOpen])"
proof -
  have h: "diffEvents lobbyA lobbyBobHosts None None None
             = Some [HostChange slotBob, LeaveEv slotAlice, SlotCreate 0 0 slotOpen]"
    by (simp add: diff_defs example_defs enumerate_eq_zip upt_rec)
  from diffEvents_in_phase_order [OF h] h show ?thesis by simp
qed

text \<open>
  C4, as the code has it. Whenever the diff yields an event list, its departure events
  are one for each human slot id of the old lobby that the new lobby lacks, and no
  other; the player of each is a slot of the old lobby, and the event is a \<^verbatim>\<open>kick\<close> if
  the player's name is the kicked hint, else a \<^verbatim>\<open>ban\<close> if the player's name is the
  banned hint, else a \<^verbatim>\<open>leave\<close>. The hints are compared with the player's name, not
  with the slot id.
\<close>

theorem departures_classified_by_name:
  assumes "diffEvents old new k b d = Some evs"
  shows "distinct (map s_id (List.map_filter departed evs))
       \<and> set (map s_id (List.map_filter departed evs))
           = s_id ` set (getHumanSlots old) - s_id ` set (getLobbySlots new)
       \<and> (\<forall>e \<in> set evs. \<forall>p. departed e = Some p \<longrightarrow>
             p \<in> set (getLobbySlots old)
             \<and> e = (if k = Some (s_name p) then Kick p
                    else if b = Some (s_name p) then Ban p else LeaveEv p))"
proof -
  let ?same = "filter (\<lambda>i. i \<in> set (remdups (map s_id (getLobbySlots new))))
                 (remdups (map s_id (getLobbySlots old)))"
  let ?left = "filter (\<lambda>i. i \<notin> set ?same) (remdups (map s_id (getHumanSlots old)))"
  from assms obtain departures deletions creations changes where
    l: "map (leftEvent (idSlots old) k b) ?left = map Some departures"
    and dl: "map (deletedEvent old new d) [0 ..< length (teams old)] = map Some deletions"
    and c: "map (createdEvent (idSlots new))
       (filter (\<lambda>i. i \<notin> set ?same) (remdups (map s_id (getLobbySlots new)))) = map Some creations"
    and sm: "map (sameEvent (idSlots old) (idSlots new)) ?same = map Some changes"
    and evs: "evs = (if s_id (host new) \<noteq> s_id (host old) then [HostChange (host new)] else [])
           @ departures @ concat deletions @ creations @ concat changes"
    by (rule diffEvents_Some_parts)
  have n2: "\<forall>e \<in> set (concat deletions). departed e = None"
    using map_eq_map_SomeD [OF dl] no_departed_deleted by fastforce
  have n3: "\<forall>e \<in> set creations. departed e = None"
    using map_eq_map_SomeD [OF c] no_departed_created by blast
  have n4: "\<forall>e \<in> set (concat changes). departed e = None"
    using map_eq_map_SomeD [OF sm] no_departed_same by fastforce
  have n0: "\<forall>e \<in> set (if s_id (host new) \<noteq> s_id (host old) then [HostChange (host new)] else []).
              departed e = None"
    by simp
  have only: "List.map_filter departed evs = List.map_filter departed departures"
    unfolding evs map_filter_append
    by (simp only: map_filter_all_None [OF n0] map_filter_all_None [OF n2]
        map_filter_all_None [OF n3] map_filter_all_None [OF n4] append_Nil append_Nil2)
  from departed_players [OF l]
  have ids: "map s_id (List.map_filter departed departures) = ?left"
    and cls: "\<forall>e \<in> set departures. \<exists>p. departed e = Some p \<and> p \<in> set (getLobbySlots old)
               \<and> e = (if k = Some (s_name p) then Kick p
                      else if b = Some (s_name p) then Ban p else LeaveEv p)"
    by blast+
  have 1: "distinct (map s_id (List.map_filter departed evs))"
    unfolding only ids by simp
  have 2: "set (map s_id (List.map_filter departed evs))
           = s_id ` set (getHumanSlots old) - s_id ` set (getLobbySlots new)"
    unfolding only ids using human_ids_subset [of old] by auto
  have 3: "\<forall>e \<in> set evs. \<forall>p. departed e = Some p \<longrightarrow>
             p \<in> set (getLobbySlots old)
             \<and> e = (if k = Some (s_name p) then Kick p
                    else if b = Some (s_name p) then Ban p else LeaveEv p)"
  proof (intro ballI allI impI)
    fix e p assume e: "e \<in> set evs" and dp: "departed e = Some p"
    from e dp n0 n2 n3 n4 have "e \<in> set departures"
      unfolding evs by (auto simp del: set_concat)
    with cls dp show "p \<in> set (getLobbySlots old)
             \<and> e = (if k = Some (s_name p) then Kick p
                    else if b = Some (s_name p) then Ban p else LeaveEv p)"
      by fastforce
  qed
  from 1 2 3 show ?thesis by blast
qed

theorem departures_classified_by_name_witness:
  "diffEvents lobbyA lobbyAlone (Some ''bob'') None None
     = Some [Kick slotBob, SlotCreate 1 0 slotOpen] \<and>
   List.map_filter departed [Kick slotBob, SlotCreate 1 0 slotOpen] = [slotBob] \<and>
   s_id ` set (getHumanSlots lobbyA) - s_id ` set (getLobbySlots lobbyAlone) = {''s2''}"
proof -
  have h: "diffEvents lobbyA lobbyAlone (Some ''bob'') None None
             = Some [Kick slotBob, SlotCreate 1 0 slotOpen]"
    by (simp add: diff_defs example_defs enumerate_eq_zip upt_rec)
  have d: "List.map_filter departed [Kick slotBob, SlotCreate 1 0 slotOpen] = [slotBob]"
    by (simp add: List.map_filter_simps)
  from departures_classified_by_name [OF h] h d show ?thesis
    by (simp add: slotBob_def)
qed

text \<open>Against C4 as stated: with the id of Bob's slot as the kicked hint the event is a
  \<^verbatim>\<open>leave\<close>; with Bob's name, which is not the id of his slot, it is a \<^verbatim>\<open>kick\<close>.\<close>

theorem kicked_hint_is_not_an_id_counterexample:
  "s_id slotBob = ''s2'' \<and> s_name slotBob = ''bob'' \<and>
   diffEvents lobbyA lobbyAlone (Some ''s2'') None None
     = Some [LeaveEv slotBob, SlotCreate 1 0 slotOpen] \<and>
   diffEvents lobbyA lobbyAlone (Some ''bob'') None None
     = Some [Kick slotBob, SlotCreate 1 0 slotOpen]"
  by (simp add: diff_defs example_defs enumerate_eq_zip upt_rec)

subsection \<open>Removing a client\<close>

lemma maybeCancelCountdown_run:
  "maybeCancelCountdown l s =
     (Inr (), if lobbyCountdowns s (l_name l) = None then s
              else s\<lparr>effects := effects s @ [RejectTimer (l_name l), Publish (LobbyPath (l_name l)) CancelCountdown,
                                               Publish MOUNT_BASE (ListAdd l)],
                      lobbyCountdowns := (lobbyCountdowns s)(l_name l := None)\<rparr>)"
  by (simp add: maybeCancelCountdown_def publishTo_def publishListChange_def handler_defs)





lemmas removal_simps =
  removeClientFromLobby_def getUserByName_def getActiveClientForUser_def
  unregisterClientForUser_def publishTo_def publishToUser_def publishListChange_def
  maybeCancelCountdown_run defined_def run_simps



subsection \<open>Commands on a transient lobby\<close>

lemmas guard_simps =
  getUser_def getClient_def getLobbyForClient_def lobbiesGet_def ensureIsLobbyHost_def
  defined_def unless_def run_simps



lemma inLobbyE:
  assumes "inLobby env sock s l"
  obtains c n where "getCurrentClient env sock = Some c" "lobbyClients s c = Some n"
    "lobbies s n = Some (Some l)"
  using assms unfolding inLobby_def by (auto split: option.splits)

lemma callerIsHostE:
  assumes "callerIsHost env sock l" and "getCurrentClient env sock = Some c"
  obtains p where "callerSlot l c = Some p" "s_id p = s_id (host l)"
  using assms unfolding callerIsHost_def by (auto split: option.splits)

lemma hostGuardE:
  assumes "inLobby env sock s l" and "callerIsHost env sock l"
  obtains c n p where "getCurrentClient env sock = Some c" "lobbyClients s c = Some n"
    "lobbies s n = Some (Some l)" "callerSlot l c = Some p" "s_id p = s_id (host l)"
  using assms by (meson inLobbyE callerIsHostE)










subsection \<open>The last human of a lobby\<close>











lemma effects_only_lobbies: "lobbies (s\<lparr>effects := es\<rparr>) = lobbies s"
  by simp







subsection \<open>A command that fails after it has changed a table\<close>

text \<open>
  C2, where the code fails it. Bob holds a human slot of lobby A and is no longer
  online. Alice, the host, bans him: \<^verbatim>\<open>banPlayer\<close> appends his name to the ban list of
  the lobby, then \<^verbatim>\<open>_removeClientFromLobby\<close> throws \<^verbatim>\<open>BadRequest\<close> from \<^verbatim>\<open>getUserByName\<close>.
  The command has failed and the ban list is not what it was.
\<close>

theorem banPlayer_fails_after_banning:
  "lobbyBannedUsers registryA ''A'' = None \<and>
   fst (banPlayer envBobOffline ''a'' ''s2'' registryA) = Inl (BadRequest ''user not online'') \<and>
   lobbyBannedUsers (snd (banPlayer envBobOffline ''a'' ''s2'' registryA)) ''A'' = Some [''bob''] \<and>
   snd (banPlayer envBobOffline ''a'' ''s2'' registryA)
     = registryA\<lparr>lobbyBannedUsers := [''A'' \<mapsto> [''bob'']]\<rparr>"
  by (simp add: banPlayer_def guard_simps ensureLobbyNotTransient_def removal_simps
      find_defs example_defs)

subsection \<open>A handshake that fails\<close>

lemma onLoadingCanceled_run:
  "onLoadingCanceled l s =
     (Inr (), s\<lparr>loadingLobbies := (loadingLobbies s)(l_name l := None),
                 effects := effects s @ [Publish (LobbyPath (l_name l)) CancelLoading,
                                         Publish MOUNT_BASE (ListAdd l)]\<rparr>)"
  by (simp add: onLoadingCanceled_def publishTo_def publishListChange_def run_simps)

lemma catchBlock_post:
  shows "fst (catchBlock l s) = Inr ()"
    and "lobbyCountdowns (snd (catchBlock l s)) (l_name l) = None"
    and "loadingLobbies (snd (catchBlock l s)) (l_name l) = None"
    and "Publish (LobbyPath (l_name l)) CancelLoading \<in> set (effects (snd (catchBlock l s)))"
    and "Publish MOUNT_BASE (ListAdd l) \<in> set (effects (snd (catchBlock l s)))"
    and "lobbyCountdowns s (l_name l) \<noteq> None \<Longrightarrow>
         Publish (LobbyPath (l_name l)) CancelCountdown \<in> set (effects (snd (catchBlock l s)))"
    and "lobbyCountdowns s (l_name l) = None \<Longrightarrow>
         effects (snd (catchBlock l s))
           = effects s @ [Publish (LobbyPath (l_name l)) CancelLoading, Publish MOUNT_BASE (ListAdd l)]"
  by (simp_all add: catchBlock_def maybeCancelCountdown_run onLoadingCanceled_run andThen_run)

lemma afterAwait_rejected:
  "afterAwait env False h s = ((finallyBlock h)\<lparr>settled := Some (Inr ())\<rparr>, snd (catchBlock (hs_lobby h) s))"
  using catchBlock_post(1) [of "hs_lobby h" s]
  by (cases "catchBlock (hs_lobby h) s") (simp add: afterAwait_def)

lemma afterAwait_thrown:
  assumes "fst (onGameLoaded env (hs_lobby h) s) \<noteq> Inr ()"
  shows "afterAwait env True h s
           = ((finallyBlock h)\<lparr>settled := Some (Inr ())\<rparr>,
              snd (catchBlock (hs_lobby h) (snd (onGameLoaded env (hs_lobby h) s))))"
proof (cases "onGameLoaded env (hs_lobby h) s")
  case (Pair r s1)
  with assms obtain err where r: "r = Inl err" by (cases r) auto
  show ?thesis
    using catchBlock_post(1) [of "hs_lobby h" s1] Pair r
    by (cases "catchBlock (hs_lobby h) s1") (simp add: afterAwait_def)
qed

lemma afterAwait_loaded:
  assumes "fst (onGameLoaded env (hs_lobby h) s) = Inr ()"
  shows "afterAwait env True h s
           = ((finallyBlock h)\<lparr>settled := Some (Inr ())\<rparr>, snd (onGameLoaded env (hs_lobby h) s))"
  using assms by (cases "onGameLoaded env (hs_lobby h) s") (simp add: afterAwait_def)

lemmas handshake_simps =
  run_def settle_def afterAwait_def finallyBlock_def catchBlock_def maybeCancelCountdown_run
  onLoadingCanceled_run onGameLoaded_def releaseClient_def getUserByName_def
  unregisterClientForUser_def publishTo_def publishToUser_def getHumanSlots_def getLobbySlots_def
  defined_def run_simps

lemma finallyBlock_timers:
  "countdownTimerId ((finallyBlock h)\<lparr>settled := r\<rparr>) = Unset"
  "allowStartTimerId ((finallyBlock h)\<lparr>settled := r\<rparr>) = Unset"
  "settled ((finallyBlock h)\<lparr>settled := r\<rparr>) = r"
  by (simp_all add: finallyBlock_def)

lemma step_LoaderRejected:
  assumes "settled h = None" and "gameLoaded h = Pending"
  shows "step env LoaderRejected (h, s)
           = ((finallyBlock (h\<lparr>gameLoaded := Rejected\<rparr>))\<lparr>settled := Some (Inr ())\<rparr>,
              snd (catchBlock (hs_lobby h) s))"
  using assms afterAwait_rejected [of env "h\<lparr>gameLoaded := Rejected\<rparr>" s]
  by (simp add: settle_def)

lemma step_LoaderResolved_thrown:
  assumes "settled h = None" and "gameLoaded h = Pending" and "countdownTimer h = Resolved"
    and "fst (onGameLoaded env (hs_lobby h) s) \<noteq> Inr ()"
  shows "step env LoaderResolved (h, s)
           = ((finallyBlock (h\<lparr>gameLoaded := Resolved\<rparr>))\<lparr>settled := Some (Inr ())\<rparr>,
              snd (catchBlock (hs_lobby h) (snd (onGameLoaded env (hs_lobby h) s))))"
  using assms afterAwait_thrown [of env "h\<lparr>gameLoaded := Resolved\<rparr>" s]
  by (simp add: settle_def)

lemma catchBlock_effects:
  "effects (snd (catchBlock l s)) = effects s
     @ (if lobbyCountdowns s (l_name l) = None then []
        else [RejectTimer (l_name l), Publish (LobbyPath (l_name l)) CancelCountdown,
              Publish MOUNT_BASE (ListAdd l)])
     @ [Publish (LobbyPath (l_name l)) CancelLoading, Publish MOUNT_BASE (ListAdd l)]"
  by (simp add: catchBlock_def maybeCancelCountdown_run onLoadingCanceled_run andThen_run)

lemma rolledBack_catchBlock:
  "rolledBack s ((finallyBlock h)\<lparr>settled := Some (Inr ())\<rparr>, snd (catchBlock (hs_lobby h) s))"
  by (simp add: rolledBack_def Let_def finallyBlock_def catchBlock_post(2,3) catchBlock_effects)

lemma step_Call_rejected:
  assumes "settled h = None" and "countdownTimer h = Pending"
    and "RejectTimer (l_name (hs_lobby h)) \<in> set (drop (length (effects s)) (effects (snd (f s))))"
  shows "step env (Call f) (h, s)
           = ((finallyBlock (h\<lparr>countdownTimer := Rejected\<rparr>))\<lparr>settled := Some (Inr ())\<rparr>,
              snd (catchBlock (hs_lobby h) (snd (f s))))"
  using assms afterAwait_rejected [of env "h\<lparr>countdownTimer := Rejected\<rparr>" "snd (f s)"]
  by (simp add: settle_def Let_def)

lemma step_CountdownTimeout_thrown:
  assumes "countdownTimerId h = Armed d" and "countdownTimer h = Pending"
    and "gameLoaded h = Resolved" and "settled h = None"
    and bad: "fst (onGameLoaded env (hs_lobby h)
                   (s\<lparr>lobbyCountdowns := (lobbyCountdowns s)(l_name (hs_lobby h) := None)\<rparr>)) \<noteq> Inr ()"
  shows "step env CountdownTimeout (h, s)
           = ((finallyBlock (h\<lparr>countdownTimerId := Fired, countdownTimer := Resolved,
                                allowStartTimerId := Armed 2000\<rparr>))\<lparr>settled := Some (Inr ())\<rparr>,
              snd (catchBlock (hs_lobby h)
                     (snd (onGameLoaded env (hs_lobby h)
                        (s\<lparr>lobbyCountdowns := (lobbyCountdowns s)(l_name (hs_lobby h) := None)\<rparr>)))))"
  using assms(1-4)
    afterAwait_thrown [of env "h\<lparr>countdownTimerId := Fired, countdownTimer := Resolved,
                                allowStartTimerId := Armed 2000\<rparr>"
                          "s\<lparr>lobbyCountdowns := (lobbyCountdowns s)(l_name (hs_lobby h) := None)\<rparr>"] bad
  by (simp add: settle_def)

lemma startCountdown_no_map:
  assumes g: "reachesGuard env sock s l StartCountdownCmd" and t: "\<not> transient s l"
    and m: "l_map l = None"
  shows "startCountdown env sock s
           = (Inr ((finallyBlock \<lparr>hs_lobby = l, countdownTimer = Pending, gameLoaded = Pending,
                      countdownTimerId = Armed 5000, allowStartTimerId = Unset,
                      gameId = None, settled = None\<rparr>)\<lparr>settled := Some (Inr ())\<rparr>),
              snd (catchBlock l
                (s\<lparr>lobbyCountdowns := (lobbyCountdowns s)(l_name l \<mapsto> ()),
                   effects := effects s @ [Publish (LobbyPath (l_name l)) StartCountdown,
                                           Publish MOUNT_BASE (ListDelete (l_name l))]\<rparr>)))"
proof -
  from g have o: "hasOpposingSides env l" by simp
  from g have "inLobby env sock s l" "callerIsHost env sock l" by simp_all
  then obtain c n p where "getCurrentClient env sock = Some c" "lobbyClients s c = Some n"
    "lobbies s n = Some (Some l)" "callerSlot l c = Some p" "s_id p = s_id (host l)"
    by (rule hostGuardE)
  moreover from t have "ensureLobbyNotTransient l s = (Inr (), s)"
    by (simp add: ensureLobbyNotTransient_def transient_def ret_def)
  ultimately show ?thesis
    using o m
    by (simp add: startCountdown_def guard_simps publishTo_def publishListChange_def
        afterAwait_rejected Let_def)
qed

lemma step_callback:
  "step env (OnGameSetup g) (h, s) = (h\<lparr>gameId := g\<rparr>, toLoader (onGameSetup (hs_lobby h) g s))"
  "step env (OnRoutesSet n g) (h, s) = (h\<lparr>gameId := g\<rparr>, toLoader (onRoutesSet (hs_lobby h) n g s))"
  by simp_all

lemma toLoader_thrown:
  "fst r = Inl e \<Longrightarrow> effects (toLoader r) = effects (snd r) @ [ThrownToLoader e]"
  by (cases r) (auto simp: toLoader_def)


lemma rolledBack_after_callback:
  assumes "settled h = None" and "gameLoaded h = Pending"
  shows "rolledBack s' (step env LoaderRejected (h\<lparr>gameId := g\<rparr>, s'))"
proof -
  have "step env LoaderRejected (h\<lparr>gameId := g\<rparr>, s')
          = ((finallyBlock (h\<lparr>gameId := g, gameLoaded := Rejected\<rparr>))\<lparr>settled := Some (Inr ())\<rparr>,
             snd (catchBlock (hs_lobby (h\<lparr>gameId := g\<rparr>)) s'))"
    using assms step_LoaderRejected [of "h\<lparr>gameId := g\<rparr>" env s'] by simp
  then show ?thesis
    using rolledBack_catchBlock [of s' "h\<lparr>gameId := g, gameLoaded := Rejected\<rparr>"] by simp
qed

lemma rolledBackD:
  assumes "rolledBack s0 w"
  shows "settled (fst w) = Some (Inr ())"
    and "countdownTimerId (fst w) = Unset" and "allowStartTimerId (fst w) = Unset"
    and "lobbyCountdowns (snd w) (l_name (hs_lobby (fst w))) = None"
    and "loadingLobbies (snd w) (l_name (hs_lobby (fst w))) = None"
    and "effects (snd w) = effects s0
           @ (if lobbyCountdowns s0 (l_name (hs_lobby (fst w))) = None then []
              else [RejectTimer (l_name (hs_lobby (fst w))),
                    Publish (LobbyPath (l_name (hs_lobby (fst w)))) CancelCountdown,
                    Publish MOUNT_BASE (ListAdd (hs_lobby (fst w)))])
           @ [Publish (LobbyPath (l_name (hs_lobby (fst w)))) CancelLoading,
              Publish MOUNT_BASE (ListAdd (hs_lobby (fst w)))]"
  using assms by (cases w; simp add: rolledBack_def Let_def)+

lemma hs_lobby_step_pair: "hs_lobby (fst (step env ev (h, s))) = hs_lobby h"
  by (cases ev)
     (auto simp: settle_def afterAwait_def finallyBlock_def Let_def
           split: timeout.splits prod.splits sum.splits)

lemma hs_lobby_step: "hs_lobby (fst (step env ev w)) = hs_lobby (fst w)"
  by (cases w) (simp only: hs_lobby_step_pair fst_conv)

text \<open>
  C6, as the code has it. A failure inside the handshake ends in the \<^verbatim>\<open>catch\<close> block,
  and the call settles without an error (\<^const>\<open>rolledBack\<close>): the timeouts are cleared,
  the lobby has no countdown record and no loading entry afterwards, \<^verbatim>\<open>cancelLoading\<close>
  is published to the lobby and the lobby is published again to the lobby list;
  before them \<^verbatim>\<open>cancelCountdown\<close> and the list entry are published when the countdown
  record is still there, and nothing when it is not (the countdown timeout has fired,
  or the handler that rejected the timer has removed it). The failures are: the
  loader rejects; \<^verbatim>\<open>_onGameLoaded\<close> throws, when the loader resolves last or when the
  countdown timeout fires last; the \<^verbatim>\<open>try\<close> statement throws before the wait, as it
  does for a lobby without a map; another handler rejects the countdown timer. An
  error thrown by \<^verbatim>\<open>onGameSetup\<close> or \<^verbatim>\<open>onRoutesSet\<close> goes to the loader and leaves the
  call waiting; it is rolled back when the loader then rejects.
\<close>

theorem handshake_failure_is_caught_and_rolled_back:
  "(settled h = None \<and> gameLoaded h = Pending \<longrightarrow>
      rolledBack s (step env LoaderRejected (h, s))) \<and>
   (settled h = None \<and> gameLoaded h = Pending \<and> countdownTimer h = Resolved
      \<and> fst (onGameLoaded env (hs_lobby h) s) \<noteq> Inr () \<longrightarrow>
      rolledBack (snd (onGameLoaded env (hs_lobby h) s)) (step env LoaderResolved (h, s))) \<and>
   (settled h = None \<and> gameLoaded h = Resolved \<and> countdownTimer h = Pending
      \<and> countdownTimerId h = Armed d
      \<and> fst (onGameLoaded env (hs_lobby h)
               (s\<lparr>lobbyCountdowns := (lobbyCountdowns s)(l_name (hs_lobby h) := None)\<rparr>)) \<noteq> Inr ()
      \<longrightarrow>
      rolledBack (snd (onGameLoaded env (hs_lobby h)
                         (s\<lparr>lobbyCountdowns := (lobbyCountdowns s)(l_name (hs_lobby h) := None)\<rparr>)))
                 (step env CountdownTimeout (h, s))) \<and>
   (reachesGuard env sock s l StartCountdownCmd \<and> \<not> transient s l \<and> l_map l = None \<longrightarrow>
      (case fst (startCountdown env sock s) of
         Inl err \<Rightarrow> False
       | Inr h' \<Rightarrow>
           hs_lobby h' = l \<and>
           rolledBack (s\<lparr>lobbyCountdowns := (lobbyCountdowns s)(l_name l \<mapsto> ()),
                         effects := effects s @ [Publish (LobbyPath (l_name l)) StartCountdown,
                                                 Publish MOUNT_BASE (ListDelete (l_name l))]\<rparr>)
                      (h', snd (startCountdown env sock s)))) \<and>
   (settled h = None \<and> countdownTimer h = Pending
      \<and> RejectTimer (l_name (hs_lobby h)) \<in> set (drop (length (effects s)) (effects (snd (f s))))
      \<longrightarrow>
      rolledBack (snd (f s)) (step env (Call f) (h, s))) \<and>
   (settled h = None \<and> gameLoaded h = Pending \<longrightarrow>
      settled (fst (step env (OnGameSetup g) (h, s))) = None
      \<and> (\<forall>err. fst (onGameSetup (hs_lobby h) g s) = Inl err \<longrightarrow>
            effects (snd (step env (OnGameSetup g) (h, s)))
              = effects (snd (onGameSetup (hs_lobby h) g s)) @ [ThrownToLoader err])
      \<and> rolledBack (snd (step env (OnGameSetup g) (h, s)))
                   (step env LoaderRejected (step env (OnGameSetup g) (h, s)))) \<and>
   (settled h = None \<and> gameLoaded h = Pending \<longrightarrow>
      settled (fst (step env (OnRoutesSet playerName g) (h, s))) = None
      \<and> (\<forall>err. fst (onRoutesSet (hs_lobby h) playerName g s) = Inl err \<longrightarrow>
            effects (snd (step env (OnRoutesSet playerName g) (h, s)))
              = effects (snd (onRoutesSet (hs_lobby h) playerName g s)) @ [ThrownToLoader err])
      \<and> rolledBack (snd (step env (OnRoutesSet playerName g) (h, s)))
                   (step env LoaderRejected (step env (OnRoutesSet playerName g) (h, s))))"
proof (intro conjI impI allI)
  assume a: "settled h = None \<and> gameLoaded h = Pending"
  then have eq: "step env LoaderRejected (h, s)
           = ((finallyBlock (h\<lparr>gameLoaded := Rejected\<rparr>))\<lparr>settled := Some (Inr ())\<rparr>,
              snd (catchBlock (hs_lobby h) s))"
    by (intro step_LoaderRejected) simp_all
  show "rolledBack s (step env LoaderRejected (h, s))"
    unfolding eq using rolledBack_catchBlock [of s "h\<lparr>gameLoaded := Rejected\<rparr>"] by simp
next
  assume a: "settled h = None \<and> gameLoaded h = Pending \<and> countdownTimer h = Resolved
      \<and> fst (onGameLoaded env (hs_lobby h) s) \<noteq> Inr ()"
  then have eq: "step env LoaderResolved (h, s)
           = ((finallyBlock (h\<lparr>gameLoaded := Resolved\<rparr>))\<lparr>settled := Some (Inr ())\<rparr>,
              snd (catchBlock (hs_lobby h) (snd (onGameLoaded env (hs_lobby h) s))))"
    by (intro step_LoaderResolved_thrown) simp_all
  show "rolledBack (snd (onGameLoaded env (hs_lobby h) s)) (step env LoaderResolved (h, s))"
    unfolding eq
    using rolledBack_catchBlock [of "snd (onGameLoaded env (hs_lobby h) s)" "h\<lparr>gameLoaded := Resolved\<rparr>"]
    by simp
next
  let ?s1 = "s\<lparr>lobbyCountdowns := (lobbyCountdowns s)(l_name (hs_lobby h) := None)\<rparr>"
  let ?h1 = "h\<lparr>countdownTimerId := Fired, countdownTimer := Resolved, allowStartTimerId := Armed 2000\<rparr>"
  assume a: "settled h = None \<and> gameLoaded h = Resolved \<and> countdownTimer h = Pending
      \<and> countdownTimerId h = Armed d
      \<and> fst (onGameLoaded env (hs_lobby h) ?s1) \<noteq> Inr ()"
  then have eq: "step env CountdownTimeout (h, s)
           = ((finallyBlock ?h1)\<lparr>settled := Some (Inr ())\<rparr>,
              snd (catchBlock (hs_lobby h) (snd (onGameLoaded env (hs_lobby h) ?s1))))"
    by (intro step_CountdownTimeout_thrown [of h d]) simp_all
  show "rolledBack (snd (onGameLoaded env (hs_lobby h) ?s1)) (step env CountdownTimeout (h, s))"
    unfolding eq
    using rolledBack_catchBlock [of "snd (onGameLoaded env (hs_lobby h) ?s1)" ?h1]
    by simp
next
  let ?h0 = "\<lparr>hs_lobby = l, countdownTimer = Pending, gameLoaded = Pending,
               countdownTimerId = Armed 5000, allowStartTimerId = Unset,
               gameId = None, settled = None\<rparr>"
  let ?s1 = "s\<lparr>lobbyCountdowns := (lobbyCountdowns s)(l_name l \<mapsto> ()),
                effects := effects s @ [Publish (LobbyPath (l_name l)) StartCountdown,
                                        Publish MOUNT_BASE (ListDelete (l_name l))]\<rparr>"
  assume a: "reachesGuard env sock s l StartCountdownCmd \<and> \<not> transient s l \<and> l_map l = None"
  then have eq: "startCountdown env sock s
           = (Inr ((finallyBlock ?h0)\<lparr>settled := Some (Inr ())\<rparr>), snd (catchBlock l ?s1))"
    by (intro startCountdown_no_map) simp_all
  show "case fst (startCountdown env sock s) of
         Inl err \<Rightarrow> False
       | Inr h' \<Rightarrow> hs_lobby h' = l \<and> rolledBack ?s1 (h', snd (startCountdown env sock s))"
    unfolding eq using rolledBack_catchBlock [of ?s1 ?h0]
    by (simp add: finallyBlock_def)
next
  assume a: "settled h = None \<and> countdownTimer h = Pending
      \<and> RejectTimer (l_name (hs_lobby h)) \<in> set (drop (length (effects s)) (effects (snd (f s))))"
  then have eq: "step env (Call f) (h, s)
           = ((finallyBlock (h\<lparr>countdownTimer := Rejected\<rparr>))\<lparr>settled := Some (Inr ())\<rparr>,
              snd (catchBlock (hs_lobby h) (snd (f s))))"
    by (intro step_Call_rejected) simp_all
  show "rolledBack (snd (f s)) (step env (Call f) (h, s))"
    unfolding eq using rolledBack_catchBlock [of "snd (f s)" "h\<lparr>countdownTimer := Rejected\<rparr>"] by simp
next
  assume a: "settled h = None \<and> gameLoaded h = Pending"
  then show "settled (fst (step env (OnGameSetup g) (h, s))) = None" by simp
  from a show "rolledBack (snd (step env (OnGameSetup g) (h, s)))
                   (step env LoaderRejected (step env (OnGameSetup g) (h, s)))"
    unfolding step_callback snd_conv by (intro rolledBack_after_callback) simp_all
  fix err assume "fst (onGameSetup (hs_lobby h) g s) = Inl err"
  then show "effects (snd (step env (OnGameSetup g) (h, s)))
              = effects (snd (onGameSetup (hs_lobby h) g s)) @ [ThrownToLoader err]"
    unfolding step_callback snd_conv by (rule toLoader_thrown)
next
  assume a: "settled h = None \<and> gameLoaded h = Pending"
  then show "settled (fst (step env (OnRoutesSet playerName g) (h, s))) = None" by simp
  from a show "rolledBack (snd (step env (OnRoutesSet playerName g) (h, s)))
                   (step env LoaderRejected (step env (OnRoutesSet playerName g) (h, s)))"
    unfolding step_callback snd_conv by (intro rolledBack_after_callback) simp_all
  fix err assume "fst (onRoutesSet (hs_lobby h) playerName g s) = Inl err"
  then show "effects (snd (step env (OnRoutesSet playerName g) (h, s)))
              = effects (snd (onRoutesSet (hs_lobby h) playerName g s)) @ [ThrownToLoader err]"
    unfolding step_callback snd_conv by (rule toLoader_thrown)
qed


theorem handshake_failure_is_caught_and_rolled_back_witness:
  "settled (fst (step exampleEnv LoaderRejected (handshakeA, registryStarted))) = Some (Inr ()) \<and>
   effects (snd (step exampleEnv LoaderRejected (handshakeA, registryStarted)))
     = effects registryStarted
       @ [RejectTimer ''A'', Publish (LobbyPath ''A'') CancelCountdown, Publish MOUNT_BASE (ListAdd lobbyA),
          Publish (LobbyPath ''A'') CancelLoading, Publish MOUNT_BASE (ListAdd lobbyA)] \<and>
   fst (onGameLoaded exampleEnv lobbyA registryBobInactive) = Inl TypeError \<and>
   settled (fst (step exampleEnv LoaderResolved (handshakeFired, registryBobInactive))) = Some (Inr ()) \<and>
   loadingLobbies (snd (step exampleEnv LoaderResolved (handshakeFired, registryBobInactive))) ''A'' = None \<and>
   l_map lobbyNoMap = None \<and>
   (case fst (startCountdown exampleEnv ''a'' registryNoMap) of
      Inl err \<Rightarrow> False
    | Inr h' \<Rightarrow> settled h' = Some (Inr ())) \<and>
   effects (snd (startCountdown exampleEnv ''a'' registryNoMap))
     = [Publish (LobbyPath ''A'') StartCountdown, Publish MOUNT_BASE (ListDelete ''A''),
        RejectTimer ''A'', Publish (LobbyPath ''A'') CancelCountdown, Publish MOUNT_BASE (ListAdd lobbyNoMap),
        Publish (LobbyPath ''A'') CancelLoading, Publish MOUNT_BASE (ListAdd lobbyNoMap)] \<and>
   fst (onGameSetup lobbyA (Some ''g1'') registryBobInactive)
     = Inl (BadRequest ''no active client for user'') \<and>
   settled (fst (step exampleEnv (OnGameSetup (Some ''g1'')) (handshakeA, registryBobInactive))) = None \<and>
   settled (fst (step exampleEnv LoaderRejected
                   (step exampleEnv (OnGameSetup (Some ''g1'')) (handshakeA, registryBobInactive))))
     = Some (Inr ()) \<and>
   loadingLobbies (snd (step exampleEnv LoaderRejected
                   (step exampleEnv (OnGameSetup (Some ''g1'')) (handshakeA, registryBobInactive)))) ''A''
     = None"
proof -
  have a: "settled handshakeA = None \<and> gameLoaded handshakeA = Pending"
    by (simp add: handshakeA_def)
  have c: "lobbyCountdowns registryStarted ''A'' \<noteq> None"
    by (simp add: example_defs)
  have n: "l_name lobbyA = ''A''" "hs_lobby handshakeA = lobbyA" "hs_lobby handshakeFired = lobbyA"
    "l_name lobbyNoMap = ''A''" "l_map lobbyNoMap = None"
    by (simp_all add: lobbyNoMap_def example_defs)
  have t: "fst (onGameLoaded exampleEnv lobbyA registryBobInactive) = Inl TypeError"
    by (simp add: handshake_simps example_defs)
  have b: "settled handshakeFired = None \<and> gameLoaded handshakeFired = Pending
           \<and> countdownTimer handshakeFired = Resolved
           \<and> fst (onGameLoaded exampleEnv (hs_lobby handshakeFired) registryBobInactive) \<noteq> Inr ()"
    using t by (simp add: handshakeFired_def handshakeA_def)
  have g: "reachesGuard exampleEnv ''a'' registryNoMap lobbyNoMap StartCountdownCmd
           \<and> \<not> transient registryNoMap lobbyNoMap \<and> l_map lobbyNoMap = None"
    by (simp add: inLobby_def callerIsHost_def transient_def find_defs registryNoMap_def
        lobbyNoMap_def example_defs)
  have s: "fst (onGameSetup lobbyA (Some ''g1'') registryBobInactive)
             = Inl (BadRequest ''no active client for user'')"
    by (simp add: onGameSetup_def publishToClient_def getActiveClientForUser_def getHumanSlots_def
        getLobbySlots_def run_simps example_defs)
  from handshake_failure_is_caught_and_rolled_back
         [where h = handshakeA and env = exampleEnv and s = registryStarted] a
  have 1: "rolledBack registryStarted (step exampleEnv LoaderRejected (handshakeA, registryStarted))"
    by blast
  from handshake_failure_is_caught_and_rolled_back
         [where h = handshakeFired and env = exampleEnv and s = registryBobInactive] b
  have 2: "rolledBack (snd (onGameLoaded exampleEnv (hs_lobby handshakeFired) registryBobInactive))
             (step exampleEnv LoaderResolved (handshakeFired, registryBobInactive))"
    by blast
  from handshake_failure_is_caught_and_rolled_back
         [where env = exampleEnv and sock = "''a''" and s = registryNoMap and l = lobbyNoMap] g
  have 3: "case fst (startCountdown exampleEnv ''a'' registryNoMap) of
         Inl err \<Rightarrow> False
       | Inr h' \<Rightarrow>
           hs_lobby h' = lobbyNoMap \<and>
           rolledBack (registryNoMap\<lparr>lobbyCountdowns := (lobbyCountdowns registryNoMap)(l_name lobbyNoMap \<mapsto> ()),
                         effects := effects registryNoMap @ [Publish (LobbyPath (l_name lobbyNoMap)) StartCountdown,
                                                 Publish MOUNT_BASE (ListDelete (l_name lobbyNoMap))]\<rparr>)
                      (h', snd (startCountdown exampleEnv ''a'' registryNoMap))"
    by blast
  from handshake_failure_is_caught_and_rolled_back
         [where h = handshakeA and env = exampleEnv and s = registryBobInactive and g = "Some ''g1''"] a
  have 4: "settled (fst (step exampleEnv (OnGameSetup (Some ''g1'')) (handshakeA, registryBobInactive))) = None"
    and 5: "rolledBack (snd (step exampleEnv (OnGameSetup (Some ''g1'')) (handshakeA, registryBobInactive)))
              (step exampleEnv LoaderRejected
                 (step exampleEnv (OnGameSetup (Some ''g1'')) (handshakeA, registryBobInactive)))"
    by blast+
  have e0: "effects registryNoMap = []" by (simp add: registryNoMap_def example_defs)
  have w1: "settled (fst (step exampleEnv LoaderRejected (handshakeA, registryStarted))) = Some (Inr ())"
    and w2: "effects (snd (step exampleEnv LoaderRejected (handshakeA, registryStarted)))
     = effects registryStarted
       @ [RejectTimer ''A'', Publish (LobbyPath ''A'') CancelCountdown, Publish MOUNT_BASE (ListAdd lobbyA),
          Publish (LobbyPath ''A'') CancelLoading, Publish MOUNT_BASE (ListAdd lobbyA)]"
    using rolledBackD(1,6) [OF 1, unfolded hs_lobby_step fst_conv n] c by (simp_all del: step.simps)
  have w3: "settled (fst (step exampleEnv LoaderResolved (handshakeFired, registryBobInactive))) = Some (Inr ())"
    and w4: "loadingLobbies (snd (step exampleEnv LoaderResolved (handshakeFired, registryBobInactive))) ''A'' = None"
    using rolledBackD(1,5) [OF 2, unfolded hs_lobby_step fst_conv n] by (simp_all del: step.simps)
  have w5: "(case fst (startCountdown exampleEnv ''a'' registryNoMap) of
      Inl err \<Rightarrow> False
    | Inr h' \<Rightarrow> settled h' = Some (Inr ()))"
    and w6: "effects (snd (startCountdown exampleEnv ''a'' registryNoMap))
     = [Publish (LobbyPath ''A'') StartCountdown, Publish MOUNT_BASE (ListDelete ''A''),
        RejectTimer ''A'', Publish (LobbyPath ''A'') CancelCountdown, Publish MOUNT_BASE (ListAdd lobbyNoMap),
        Publish (LobbyPath ''A'') CancelLoading, Publish MOUNT_BASE (ListAdd lobbyNoMap)]"
    using 3 n e0 by (auto simp: rolledBack_def Let_def split: sum.splits)
  have w7: "settled (fst (step exampleEnv LoaderRejected
                   (step exampleEnv (OnGameSetup (Some ''g1'')) (handshakeA, registryBobInactive))))
     = Some (Inr ())"
    and w8: "loadingLobbies (snd (step exampleEnv LoaderRejected
                   (step exampleEnv (OnGameSetup (Some ''g1'')) (handshakeA, registryBobInactive)))) ''A''
     = None"
    using rolledBackD(1,5) [OF 5, unfolded hs_lobby_step fst_conv n]
    by (simp_all del: step.simps)
  from w1 w2 t w3 w4 n(5) w5 w6 s 4 w7 w8 show ?thesis by blast
qed

text \<open>Against C6 as stated: Alice starts the countdown, the countdown timeout fires, then
  the loader rejects. The error is caught and the loading is cancelled, and no
  \<^verbatim>\<open>cancelCountdown\<close> is published.\<close>

theorem no_cancelCountdown_after_the_countdown_counterexample:
  "startCountdown exampleEnv ''a'' registryA = (Inr handshakeA, registryStarted) \<and>
   settled (fst (run exampleEnv [CountdownTimeout, LoaderRejected] (handshakeA, registryStarted)))
     = Some (Inr ()) \<and>
   effects (snd (run exampleEnv [CountdownTimeout, LoaderRejected] (handshakeA, registryStarted)))
     = [Publish (LobbyPath ''A'') StartCountdown, Publish MOUNT_BASE (ListDelete ''A''),
        Publish (LobbyPath ''A'') CancelLoading, Publish MOUNT_BASE (ListAdd lobbyA)]"
proof -
  have 1: "startCountdown exampleEnv ''a'' registryA = (Inr handshakeA, registryStarted)"
    by (simp add: startCountdown_def guard_simps ensureLobbyNotTransient_def publishTo_def
        publishListChange_def find_defs example_defs)
  have 2: "settled (fst (run exampleEnv [CountdownTimeout, LoaderRejected] (handshakeA, registryStarted)))
     = Some (Inr ()) \<and>
   effects (snd (run exampleEnv [CountdownTimeout, LoaderRejected] (handshakeA, registryStarted)))
     = [Publish (LobbyPath ''A'') StartCountdown, Publish MOUNT_BASE (ListDelete ''A''),
        Publish (LobbyPath ''A'') CancelLoading, Publish MOUNT_BASE (ListAdd lobbyA)]"
    by (simp add: handshake_simps example_defs Let_def)
  from 1 2 show ?thesis by blast
qed

subsection \<open>The grace period before \<^verbatim>\<open>allowStart\<close>\<close>

lemma releaseClient_quiet:
  "Publish p (AllowStart g) \<in> set (effects (snd (releaseClient env l clientU s)))
     \<Longrightarrow> Publish p (AllowStart g) \<in> set (effects s)"
  by (cases clientU; cases "getByName env (c_name (the clientU))")
     (simp_all add: releaseClient_def getUserByName_def unregisterClientForUser_def publishToUser_def
        defined_def run_simps)

lemma releaseAll_quiet:
  "Publish p (AllowStart g)
     \<in> set (effects (snd (foldr (\<lambda>clientU rest. andThen (releaseClient env l clientU) (\<lambda>_. rest))
                                clients (ret ()) s)))
     \<Longrightarrow> Publish p (AllowStart g) \<in> set (effects s)"
proof (induction clients arbitrary: s)
  case Nil
  then show ?case by (simp add: ret_run)
next
  case (Cons clientU clients)
  let ?F = "\<lambda>clientU rest. andThen (releaseClient env l clientU) (\<lambda>_. rest)"
  have unfold: "foldr ?F (clientU # clients) (ret ()) s
                  = andThen (releaseClient env l clientU) (\<lambda>_. foldr ?F clients (ret ())) s"
    by simp
  show ?case
  proof (cases "releaseClient env l clientU s")
    case (Pair r s1)
    have s1: "s1 = snd (releaseClient env l clientU s)" using Pair by simp
    show ?thesis
    proof (cases r)
      case (Inl err)
      with Pair have "foldr ?F (clientU # clients) (ret ()) s = (Inl err, s1)"
        unfolding unfold by (simp add: andThen_Inl)
      with Cons.prems have "Publish p (AllowStart g) \<in> set (effects s1)"
        by simp
      then show ?thesis unfolding s1 by (rule releaseClient_quiet)
    next
      case (Inr u)
      with Pair have "foldr ?F (clientU # clients) (ret ()) s = foldr ?F clients (ret ()) s1"
        unfolding unfold by (simp add: andThen_Inr)
      with Cons.prems have "Publish p (AllowStart g)
        \<in> set (effects (snd (foldr ?F clients (ret ()) s1)))"
        by simp
      then have "Publish p (AllowStart g) \<in> set (effects s1)" by (rule Cons.IH)
      then show ?thesis unfolding s1 by (rule releaseClient_quiet)
    qed
  qed
qed

lemma onGameLoaded_quiet:
  assumes "Publish p (AllowStart g) \<in> set (effects (snd (onGameLoaded env l s)))"
  shows "Publish p (AllowStart g) \<in> set (effects s)"
proof -
  let ?s1 = "s\<lparr>effects := effects s @ [Publish (LobbyPath (l_name l)) GameStarted]\<rparr>"
  let ?clients = "map (\<lambda>p. userClients ?s1 (s_name p)) (getHumanSlots l)"
  let ?w = "foldr (\<lambda>clientU rest. andThen (releaseClient env l clientU) (\<lambda>_. rest)) ?clients (ret ()) ?s1"
  have eff: "effects (snd (onGameLoaded env l s)) = effects (snd ?w)"
    by (cases ?w; cases "fst ?w") (simp_all add: onGameLoaded_def publishTo_def run_simps)
  from assms have "Publish p (AllowStart g) \<in> set (effects (snd ?w))" unfolding eff .
  then have "Publish p (AllowStart g) \<in> set (effects ?s1)" by (rule releaseAll_quiet)
  then show ?thesis by simp
qed

lemma startCountdown_waiting:
  assumes "fst (startCountdown env sock s) = Inr h" and "settled h = None"
  shows "countdownTimerId h = Armed 5000 \<and> allowStartTimerId h = Unset
         \<and> countdownTimer h = Pending \<and> gameLoaded h = Pending"
proof -
  have "(\<exists>err. fst (startCountdown env sock s) = Inl err)
        \<or> (\<exists>h'. fst (startCountdown env sock s) = Inr h' \<and> settled h' \<noteq> None)
        \<or> (\<exists>l. fst (startCountdown env sock s)
                 = Inr \<lparr>hs_lobby = l, countdownTimer = Pending, gameLoaded = Pending,
                        countdownTimerId = Armed 5000, allowStartTimerId = Unset,
                        gameId = None, settled = None\<rparr>)"
    by (auto simp: startCountdown_def guard_simps ensureLobbyNotTransient_def publishTo_def
        publishListChange_def afterAwait_def finallyBlock_def Let_def
        split: option.splits prod.splits)
  with assms show ?thesis by auto
qed

lemma step_CountdownTimeout_waiting:
  assumes "countdownTimerId h = Armed d" and "countdownTimer h = Pending"
    and "gameLoaded h = Pending" and "settled h = None"
  shows "step env CountdownTimeout (h, s)
           = (h\<lparr>countdownTimerId := Fired, countdownTimer := Resolved, allowStartTimerId := Armed 2000\<rparr>,
              s\<lparr>lobbyCountdowns := (lobbyCountdowns s)(l_name (hs_lobby h) := None)\<rparr>)"
  using assms by (simp add: settle_def)

lemma step_AllowStartTimeout_armed:
  assumes "allowStartTimerId h = Armed d"
  shows "step env AllowStartTimeout (h, s)
           = (h\<lparr>allowStartTimerId := Fired\<rparr>,
              s\<lparr>effects := effects s @ [Publish (LobbyPath (l_name (hs_lobby h))) (AllowStart (gameId h))]\<rparr>)"
  using assms by (simp add: publishTo_def emit_run)

lemma step_AllowStartTimeout_unset:
  assumes "allowStartTimerId h = Unset"
  shows "step env AllowStartTimeout (h, s) = (h, s)"
  using assms by simp

lemma step_CountdownTimeout_loaded:
  assumes "countdownTimerId h = Armed d" and "countdownTimer h = Pending"
    and "gameLoaded h = Resolved" and "settled h = None"
    and ok: "fst (onGameLoaded env (hs_lobby h)
                   (s\<lparr>lobbyCountdowns := (lobbyCountdowns s)(l_name (hs_lobby h) := None)\<rparr>)) = Inr ()"
  shows "step env CountdownTimeout (h, s)
           = ((finallyBlock (h\<lparr>countdownTimerId := Fired, countdownTimer := Resolved,
                                allowStartTimerId := Armed 2000\<rparr>))\<lparr>settled := Some (Inr ())\<rparr>,
              snd (onGameLoaded env (hs_lobby h)
                     (s\<lparr>lobbyCountdowns := (lobbyCountdowns s)(l_name (hs_lobby h) := None)\<rparr>)))"
  using assms(1-4)
    afterAwait_loaded [of env "h\<lparr>countdownTimerId := Fired, countdownTimer := Resolved,
                                allowStartTimerId := Armed 2000\<rparr>"
                          "s\<lparr>lobbyCountdowns := (lobbyCountdowns s)(l_name (hs_lobby h) := None)\<rparr>"] ok
  by (simp add: settle_def)

lemma step_LoaderResolved_loaded:
  assumes "countdownTimer h = Resolved" and "gameLoaded h = Pending" and "settled h = None"
    and ok: "fst (onGameLoaded env (hs_lobby h) s) = Inr ()"
  shows "step env LoaderResolved (h, s)
           = ((finallyBlock (h\<lparr>gameLoaded := Resolved\<rparr>))\<lparr>settled := Some (Inr ())\<rparr>,
              snd (onGameLoaded env (hs_lobby h) s))"
  using assms(1-3) afterAwait_loaded [of env "h\<lparr>gameLoaded := Resolved\<rparr>" s] ok
  by (simp add: settle_def)

text \<open>
  C7, as the code has it. A call of \<^verbatim>\<open>startCountdown\<close> that waits has its countdown
  timeout armed with 5000 ms. When that timeout fires while the loader is pending, a
  timeout of 2000 ms is armed and the countdown record is deleted; when the 2000 ms
  timeout fires, \<^verbatim>\<open>allowStart\<close> is published to the lobby with the game id received so
  far. A timeout that is not armed publishes nothing, and the end of the wait unsets
  it: a handshake that succeeds when the countdown timeout fires (the loader had
  resolved) or when the loader resolves before the 2000 ms timeout has fired settles
  with no \<^verbatim>\<open>allowStart\<close> published by it, and with the timeout unset.
\<close>

theorem allowStart_needs_the_grace_timeout:
  "(fst (startCountdown env sock s) = Inr h \<and> settled h = None \<longrightarrow>
      countdownTimerId h = Armed 5000 \<and> allowStartTimerId h = Unset) \<and>
   (countdownTimerId h = Armed d \<and> countdownTimer h = Pending \<and> gameLoaded h = Pending
      \<and> settled h = None \<longrightarrow>
      step env CountdownTimeout (h, s)
        = (h\<lparr>countdownTimerId := Fired, countdownTimer := Resolved, allowStartTimerId := Armed 2000\<rparr>,
           s\<lparr>lobbyCountdowns := (lobbyCountdowns s)(l_name (hs_lobby h) := None)\<rparr>)) \<and>
   (allowStartTimerId h = Armed d \<longrightarrow>
      step env AllowStartTimeout (h, s)
        = (h\<lparr>allowStartTimerId := Fired\<rparr>,
           s\<lparr>effects := effects s
                @ [Publish (LobbyPath (l_name (hs_lobby h))) (AllowStart (gameId h))]\<rparr>)) \<and>
   (allowStartTimerId h = Unset \<longrightarrow> step env AllowStartTimeout (h, s) = (h, s)) \<and>
   (countdownTimerId h = Armed d \<and> countdownTimer h = Pending \<and> gameLoaded h = Resolved
      \<and> settled h = None
      \<and> fst (onGameLoaded env (hs_lobby h)
               (s\<lparr>lobbyCountdowns := (lobbyCountdowns s)(l_name (hs_lobby h) := None)\<rparr>)) = Inr ()
      \<longrightarrow>
      settled (fst (step env CountdownTimeout (h, s))) = Some (Inr ())
      \<and> allowStartTimerId (fst (step env CountdownTimeout (h, s))) = Unset
      \<and> (\<forall>p g. Publish p (AllowStart g) \<in> set (effects (snd (step env CountdownTimeout (h, s))))
                 \<longrightarrow> Publish p (AllowStart g) \<in> set (effects s))) \<and>
   (countdownTimer h = Resolved \<and> gameLoaded h = Pending \<and> settled h = None
      \<and> fst (onGameLoaded env (hs_lobby h) s) = Inr () \<longrightarrow>
      settled (fst (step env LoaderResolved (h, s))) = Some (Inr ())
      \<and> allowStartTimerId (fst (step env LoaderResolved (h, s))) = Unset
      \<and> (\<forall>p g. Publish p (AllowStart g) \<in> set (effects (snd (step env LoaderResolved (h, s))))
                 \<longrightarrow> Publish p (AllowStart g) \<in> set (effects s)))"
proof (intro conjI impI allI)
  assume "fst (startCountdown env sock s) = Inr h \<and> settled h = None"
  then have w: "countdownTimerId h = Armed 5000 \<and> allowStartTimerId h = Unset
         \<and> countdownTimer h = Pending \<and> gameLoaded h = Pending"
    by (intro startCountdown_waiting [of env sock s]) simp_all
  from w show "countdownTimerId h = Armed 5000" by simp
  from w show "allowStartTimerId h = Unset" by simp
next
  assume "countdownTimerId h = Armed d \<and> countdownTimer h = Pending \<and> gameLoaded h = Pending
      \<and> settled h = None"
  then show "step env CountdownTimeout (h, s)
        = (h\<lparr>countdownTimerId := Fired, countdownTimer := Resolved, allowStartTimerId := Armed 2000\<rparr>,
           s\<lparr>lobbyCountdowns := (lobbyCountdowns s)(l_name (hs_lobby h) := None)\<rparr>)"
    by (intro step_CountdownTimeout_waiting [of h d]) simp_all
next
  assume "allowStartTimerId h = Armed d"
  then show "step env AllowStartTimeout (h, s)
        = (h\<lparr>allowStartTimerId := Fired\<rparr>,
           s\<lparr>effects := effects s
                @ [Publish (LobbyPath (l_name (hs_lobby h))) (AllowStart (gameId h))]\<rparr>)"
    by (rule step_AllowStartTimeout_armed)
next
  assume "allowStartTimerId h = Unset"
  then show "step env AllowStartTimeout (h, s) = (h, s)"
    by (rule step_AllowStartTimeout_unset)
next
  assume a: "countdownTimerId h = Armed d \<and> countdownTimer h = Pending \<and> gameLoaded h = Resolved
      \<and> settled h = None
      \<and> fst (onGameLoaded env (hs_lobby h)
               (s\<lparr>lobbyCountdowns := (lobbyCountdowns s)(l_name (hs_lobby h) := None)\<rparr>)) = Inr ()"
  then have eq: "step env CountdownTimeout (h, s)
           = ((finallyBlock (h\<lparr>countdownTimerId := Fired, countdownTimer := Resolved,
                                allowStartTimerId := Armed 2000\<rparr>))\<lparr>settled := Some (Inr ())\<rparr>,
              snd (onGameLoaded env (hs_lobby h)
                     (s\<lparr>lobbyCountdowns := (lobbyCountdowns s)(l_name (hs_lobby h) := None)\<rparr>)))"
    by (intro step_CountdownTimeout_loaded [of h d]) simp_all
  show "settled (fst (step env CountdownTimeout (h, s))) = Some (Inr ())"
    unfolding eq by (simp add: finallyBlock_timers)
  show "allowStartTimerId (fst (step env CountdownTimeout (h, s))) = Unset"
    unfolding eq by (simp add: finallyBlock_timers)
  fix p g
  assume "Publish p (AllowStart g) \<in> set (effects (snd (step env CountdownTimeout (h, s))))"
  then have "Publish p (AllowStart g)
    \<in> set (effects (s\<lparr>lobbyCountdowns := (lobbyCountdowns s)(l_name (hs_lobby h) := None)\<rparr>))"
    unfolding eq snd_conv by (rule onGameLoaded_quiet)
  then show "Publish p (AllowStart g) \<in> set (effects s)" by simp
next
  assume a: "countdownTimer h = Resolved \<and> gameLoaded h = Pending \<and> settled h = None
      \<and> fst (onGameLoaded env (hs_lobby h) s) = Inr ()"
  then have eq: "step env LoaderResolved (h, s)
           = ((finallyBlock (h\<lparr>gameLoaded := Resolved\<rparr>))\<lparr>settled := Some (Inr ())\<rparr>,
              snd (onGameLoaded env (hs_lobby h) s))"
    by (intro step_LoaderResolved_loaded) simp_all
  show "settled (fst (step env LoaderResolved (h, s))) = Some (Inr ())"
    unfolding eq by (simp add: finallyBlock_timers)
  show "allowStartTimerId (fst (step env LoaderResolved (h, s))) = Unset"
    unfolding eq by (simp add: finallyBlock_timers)
  fix p g
  assume "Publish p (AllowStart g) \<in> set (effects (snd (step env LoaderResolved (h, s))))"
  then show "Publish p (AllowStart g) \<in> set (effects s)"
    unfolding eq snd_conv by (rule onGameLoaded_quiet)
qed

theorem allowStart_needs_the_grace_timeout_witness:
  "fst (startCountdown exampleEnv ''a'' registryA) = Inr handshakeA \<and>
   countdownTimerId handshakeA = Armed 5000 \<and>
   fst (step exampleEnv CountdownTimeout (handshakeA, registryStarted)) = handshakeFired \<and>
   allowStartTimerId handshakeFired = Armed 2000 \<and>
   effects (snd (step exampleEnv AllowStartTimeout
                   (handshakeFired\<lparr>gameId := Some ''g1''\<rparr>, registryStarted)))
     = effects registryStarted @ [Publish (LobbyPath ''A'') (AllowStart (Some ''g1''))] \<and>
   settled (fst (step exampleEnv LoaderResolved (handshakeFired, registryStarted))) = Some (Inr ()) \<and>
   allowStartTimerId (fst (step exampleEnv LoaderResolved (handshakeFired, registryStarted))) = Unset"
proof -
  have start: "fst (startCountdown exampleEnv ''a'' registryA) = Inr handshakeA \<and> settled handshakeA = None"
    by (simp add: startCountdown_def guard_simps ensureLobbyNotTransient_def publishTo_def
        publishListChange_def find_defs example_defs)
  have waiting: "countdownTimerId handshakeA = Armed 5000 \<and> countdownTimer handshakeA = Pending
                 \<and> gameLoaded handshakeA = Pending \<and> settled handshakeA = None"
    by (simp add: handshakeA_def)
  have armed: "allowStartTimerId (handshakeFired\<lparr>gameId := Some ''g1''\<rparr>) = Armed 2000"
    by (simp add: handshakeFired_def)
  have loaded: "countdownTimer handshakeFired = Resolved \<and> gameLoaded handshakeFired = Pending
                \<and> settled handshakeFired = None
                \<and> fst (onGameLoaded exampleEnv (hs_lobby handshakeFired) registryStarted) = Inr ()"
    by (simp add: handshake_simps example_defs)
  from allowStart_needs_the_grace_timeout
         [where env = exampleEnv and sock = "''a''" and s = registryA and h = handshakeA] start
  have 1: "countdownTimerId handshakeA = Armed 5000" by blast
  from allowStart_needs_the_grace_timeout
         [where env = exampleEnv and s = registryStarted and h = handshakeA and d = 5000] waiting
  have 2: "step exampleEnv CountdownTimeout (handshakeA, registryStarted)
        = (handshakeA\<lparr>countdownTimerId := Fired, countdownTimer := Resolved,
                        allowStartTimerId := Armed 2000\<rparr>,
           registryStarted\<lparr>lobbyCountdowns :=
              (lobbyCountdowns registryStarted)(l_name (hs_lobby handshakeA) := None)\<rparr>)"
    by blast
  from allowStart_needs_the_grace_timeout
         [where env = exampleEnv and s = registryStarted
            and h = "handshakeFired\<lparr>gameId := Some ''g1''\<rparr>" and d = 2000] armed
  have 3: "step exampleEnv AllowStartTimeout (handshakeFired\<lparr>gameId := Some ''g1''\<rparr>, registryStarted)
        = (handshakeFired\<lparr>gameId := Some ''g1''\<rparr>\<lparr>allowStartTimerId := Fired\<rparr>,
           registryStarted\<lparr>effects := effects registryStarted
                @ [Publish (LobbyPath (l_name (hs_lobby (handshakeFired\<lparr>gameId := Some ''g1''\<rparr>))))
                     (AllowStart (gameId (handshakeFired\<lparr>gameId := Some ''g1''\<rparr>)))]\<rparr>)"
    by blast
  from allowStart_needs_the_grace_timeout
         [where env = exampleEnv and s = registryStarted and h = handshakeFired] loaded
  have 4: "settled (fst (step exampleEnv LoaderResolved (handshakeFired, registryStarted))) = Some (Inr ())
           \<and> allowStartTimerId (fst (step exampleEnv LoaderResolved (handshakeFired, registryStarted))) = Unset"
    by blast
  have names: "l_name (hs_lobby (handshakeFired\<lparr>gameId := Some ''g1''\<rparr>)) = ''A''"
    "handshakeA\<lparr>countdownTimerId := Fired, countdownTimer := Resolved,
                        allowStartTimerId := Armed 2000\<rparr> = handshakeFired"
    by (simp_all add: example_defs)
  from start 1 2 3 4 armed names show ?thesis
    by (simp add: handshakeFired_def)
qed

text \<open>Against C7 as stated: the loader resolves, then the countdown timeout fires. The
  handshake succeeds (\<^verbatim>\<open>gameStarted\<close> is published, the lobby is gone), no \<^verbatim>\<open>allowStart\<close> is
  published, and the allow-start timeout, cleared by \<^verbatim>\<open>finally\<close>, publishes nothing
  later.\<close>

theorem handshake_succeeds_without_allowStart_counterexample:
  "startCountdown exampleEnv ''a'' registryA = (Inr handshakeA, registryStarted) \<and>
   settled (fst (run exampleEnv [LoaderResolved, CountdownTimeout, AllowStartTimeout]
                   (handshakeA, registryStarted))) = Some (Inr ()) \<and>
   lobbies (snd (run exampleEnv [LoaderResolved, CountdownTimeout, AllowStartTimeout]
                   (handshakeA, registryStarted))) ''A'' = None \<and>
   effects (snd (run exampleEnv [LoaderResolved, CountdownTimeout, AllowStartTimeout]
                   (handshakeA, registryStarted)))
     = [Publish (LobbyPath ''A'') StartCountdown,
        Publish MOUNT_BASE (ListDelete ''A''),
        Publish (LobbyPath ''A'') GameStarted,
        Publish (UserPath ''A'' ''alice'') (Status None),
        UserUnsubscribe ''alice'' (UserPath ''A'' ''alice''),
        ClientUnsubscribe clientAlice (LobbyPath ''A''),
        ClientUnsubscribe clientAlice (ClientPath ''A'' 1 ''c1''),
        Publish (UserPath ''A'' ''bob'') (Status None),
        UserUnsubscribe ''bob'' (UserPath ''A'' ''bob''),
        ClientUnsubscribe clientBob (LobbyPath ''A''),
        ClientUnsubscribe clientBob (ClientPath ''A'' 2 ''c2'')]"
proof -
  have 1: "startCountdown exampleEnv ''a'' registryA = (Inr handshakeA, registryStarted)"
    by (simp add: startCountdown_def guard_simps ensureLobbyNotTransient_def publishTo_def
        publishListChange_def find_defs example_defs)
  have 2: "settled (fst (run exampleEnv [LoaderResolved, CountdownTimeout, AllowStartTimeout]
                   (handshakeA, registryStarted))) = Some (Inr ()) \<and>
   lobbies (snd (run exampleEnv [LoaderResolved, CountdownTimeout, AllowStartTimeout]
                   (handshakeA, registryStarted))) ''A'' = None \<and>
   effects (snd (run exampleEnv [LoaderResolved, CountdownTimeout, AllowStartTimeout]
                   (handshakeA, registryStarted)))
     = [Publish (LobbyPath ''A'') StartCountdown,
        Publish MOUNT_BASE (ListDelete ''A''),
        Publish (LobbyPath ''A'') GameStarted,
        Publish (UserPath ''A'' ''alice'') (Status None),
        UserUnsubscribe ''alice'' (UserPath ''A'' ''alice''),
        ClientUnsubscribe clientAlice (LobbyPath ''A''),
        ClientUnsubscribe clientAlice (ClientPath ''A'' 1 ''c1''),
        Publish (UserPath ''A'' ''bob'') (Status None),
        UserUnsubscribe ''bob'' (UserPath ''A'' ''bob''),
        ClientUnsubscribe clientBob (LobbyPath ''A''),
        ClientUnsubscribe clientBob (ClientPath ''A'' 2 ''c2'')]"
    by (simp add: handshake_simps example_defs Let_def)
  from 1 2 show ?thesis by blast
qed

subsection \<open>No lobby without a human\<close>





















































end
